theory Spec2Isabelle
  imports Complex_Main "HOL-Library.Word" "HOL-Library.Monad_Syntax"
begin

unbundle bit_operations_syntax

section \<open>The Kismet data source controller (kis\_datasource.cc)\<close>

text \<open>
  A shallow embedding of \<^verbatim>\<open>KisDatasource\<close>: the frame encoder \<^verbatim>\<open>write_packet\<close>, the
  frame decoder of \<^verbatim>\<open>BufferAvailable\<close>, the command registry with its cancellation
  paths, the error path, the source-definition parser, the public operations with their
  capability gates, the handlers of the \<^verbatim>\<open>openresp\<close> and \<^verbatim>\<open>configresp\<close> frames with the
  payload handlers they call, and the \<^verbatim>\<open>gps\<close> payload handler. (The handlers of the
  \<^verbatim>\<open>proberesp\<close>, \<^verbatim>\<open>listresp\<close> and \<^verbatim>\<open>data\<close> frames are not modelled.)

  Conventions of the model.
  \<^item> A C++ object with mutable members is a record; a member function takes the record
    and returns the updated one.
  \<^item> \<^verbatim>\<open>std::map\<close> is an association list kept in key order, so that \<^verbatim>\<open>begin()\<close> and the
    iteration order are those of the C++ container.
  \<^item> A completion callback is an opaque function object. It is modelled by an identity
    (a number), \<^verbatim>\<open>NULL\<close> by \<open>None\<close>, and every invocation is appended to the
    \<open>callbacks\<close> log of the controller with the arguments it received.
  \<^item> A function that may not return (the loop of \<^verbatim>\<open>cancel_all_commands\<close>) returns an
    \<open>option\<close>: \<open>None\<close> is "never returns".
  \<^item> Memory obtained from \<^verbatim>\<open>new char[n]\<close> is not initialised: its prior content is
    the parameter \<open>uninitialised\<close>.
  \<^item> The log sink \<^verbatim>\<open>_MSG\<close> and the recursive lock are not modelled: every function
    modelled here runs to its end under the lock, and no statement below observes the log.
\<close>

subsection \<open>Bytes, strings and 32-bit fields\<close>

type_synonym byte = "8 word"
type_synonym uint32_t = "32 word"

definition byte_of_char :: "char \<Rightarrow> byte" where
  "byte_of_char c = of_char c"

definition char_of_byte :: "byte \<Rightarrow> char" where
  "char_of_byte b =
     Char (bit b 0) (bit b 1) (bit b 2) (bit b 3) (bit b 4) (bit b 5) (bit b 6) (bit b 7)"

text \<open>
  Modelled from the spec: \<^verbatim>\<open>StrLower\<close> (util.cc) is not under src/. The spec has keys and
  type tags lowercased as ASCII.
\<close>

definition tolower_c :: "char \<Rightarrow> char" where
  "tolower_c c =
     (let b = byte_of_char c in if 65 \<le> b \<and> b \<le> 90 then char_of_byte (b + 32) else c)"

definition StrLower :: "string \<Rightarrow> string" where
  "StrLower s = map tolower_c s"

text \<open>
  Modelled from the spec: \<^verbatim>\<open>kis_hton32\<close> and \<^verbatim>\<open>kis_ntoh32\<close> (endian\_magic.h) are not under
  src/; the spec has every multi-byte integer big-endian on the wire. \<open>kis_hton32 w\<close>
  is the four bytes that a field assigned \<^verbatim>\<open>kis_hton32(w)\<close> holds in memory, and
  \<open>kis_ntoh32 bs\<close> is the value \<^verbatim>\<open>kis_ntoh32\<close> returns for a field holding the bytes \<open>bs\<close>;
  neither depends on the byte order of the host.
\<close>

definition kis_hton32 :: "uint32_t \<Rightarrow> byte list" where
  "kis_hton32 w = map (\<lambda>k. of_nat (unat w div 256 ^ k mod 256)) [3, 2, 1, 0]"

definition kis_ntoh32 :: "byte list \<Rightarrow> uint32_t" where
  "kis_ntoh32 bs = of_nat (foldl (\<lambda>a b. a * 256 + unat b) 0 bs)"

text \<open>
  \<^verbatim>\<open>kis_ntoh32\<close> applied to a value of the host (\<^verbatim>\<open>write_packet\<close> does it to
  \<^verbatim>\<open>next_cmd_sequence\<close>): the identity on a big-endian host, a byte swap otherwise.
\<close>

definition kis_ntoh32_value :: "bool \<Rightarrow> uint32_t \<Rightarrow> uint32_t" where
  "kis_ntoh32_value big_endian w =
     (if big_endian then w else kis_ntoh32 (rev (kis_hton32 w)))"

text \<open>A read of \<open>n\<close> bytes at offset \<open>off\<close> of a buffer; \<open>None\<close> when it leaves the buffer.\<close>

definition peek :: "byte list \<Rightarrow> nat \<Rightarrow> nat \<Rightarrow> byte list option" where
  "peek buf off n = (if off + n \<le> length buf then Some (take n (drop off buf)) else None)"

text \<open>A store of the bytes \<open>bs\<close> at offset \<open>off\<close> of a buffer (\<^verbatim>\<open>memcpy\<close>, a field assignment).\<close>

definition store :: "byte list \<Rightarrow> nat \<Rightarrow> byte list \<Rightarrow> byte list" where
  "store buf off bs = take off buf @ bs @ drop (off + length bs) buf"

text \<open>
  \<^verbatim>\<open>snprintf(dst, 16, "%s", s.c_str())\<close>: the bytes written at \<open>dst\<close>, at most 15 characters
  of the C string and the terminating NUL. The rest of the 16-byte field is not written.
\<close>

definition snprintf16 :: "string \<Rightarrow> byte list" where
  "snprintf16 s = map byte_of_char (take 15 (takeWhile (\<lambda>c. c \<noteq> CHR 0x00) s)) @ [0]"

text \<open>
  \<^verbatim>\<open>snprintf(dst, 17, "%s", field)\<close> on a 16-byte field, read as a \<^verbatim>\<open>std::string\<close>: the
  characters before the first NUL, at most 16.
\<close>

definition snprintf17 :: "byte list \<Rightarrow> string" where
  "snprintf17 field = map char_of_byte (takeWhile (\<lambda>b. b \<noteq> 0) (take 16 field))"

subsection \<open>std::map\<close>

text \<open>
  \<^verbatim>\<open>std::map\<close> as an association list in the order of the keys. \<open>map_assign\<close> is
  \<^verbatim>\<open>m[k] = v\<close>, \<open>map_emplace\<close> is \<^verbatim>\<open>m.emplace(k, v)\<close> (no change when the key is present),
  \<open>map_of\<close> is \<^verbatim>\<open>find\<close>, \<open>map_erase\<close> is \<^verbatim>\<open>erase\<close>.
\<close>

fun map_assign :: "('k \<Rightarrow> 'k \<Rightarrow> bool) \<Rightarrow> 'k \<Rightarrow> 'v \<Rightarrow> ('k \<times> 'v) list \<Rightarrow> ('k \<times> 'v) list" where
  "map_assign lt k v [] = [(k, v)]"
| "map_assign lt k v ((k', v') # m) =
     (if lt k k' then (k, v) # (k', v') # m
      else if lt k' k then (k', v') # map_assign lt k v m
      else (k', v) # m)"

fun map_emplace :: "('k \<Rightarrow> 'k \<Rightarrow> bool) \<Rightarrow> 'k \<Rightarrow> 'v \<Rightarrow> ('k \<times> 'v) list \<Rightarrow> ('k \<times> 'v) list" where
  "map_emplace lt k v [] = [(k, v)]"
| "map_emplace lt k v ((k', v') # m) =
     (if lt k k' then (k, v) # (k', v') # m
      else if lt k' k then (k', v') # map_emplace lt k v m
      else (k', v') # m)"

definition map_erase :: "'k \<Rightarrow> ('k \<times> 'v) list \<Rightarrow> ('k \<times> 'v) list" where
  "map_erase k m = filter (\<lambda>kv. fst kv \<noteq> k) m"

text \<open>\<^verbatim>\<open>std::string::operator<\<close>: lexicographic on the characters read as unsigned bytes.\<close>

fun string_less :: "string \<Rightarrow> string \<Rightarrow> bool" where
  "string_less [] [] = False"
| "string_less [] (y # ys) = True"
| "string_less (x # xs) [] = False"
| "string_less (x # xs) (y # ys) =
     (if byte_of_char x < byte_of_char y then True
      else if byte_of_char y < byte_of_char x then False
      else string_less xs ys)"

definition uint32_less :: "uint32_t \<Rightarrow> uint32_t \<Rightarrow> bool" where
  "uint32_less a b = (a < b)"

subsection \<open>Keyed objects and the frame layout\<close>

record KisDatasourceCapKeyedObject =
  key :: string
  size_kv :: nat
  object :: "byte list"

type_synonym KVmap = "(string \<times> KisDatasourceCapKeyedObject) list"

text \<open>
  Modelled from the spec: simple\_datasource\_proto.h is not under src/. The envelope
  \<^verbatim>\<open>simple_cap_proto_t\<close> is \<^verbatim>\<open>signature:u32 | checksum:u32 | sequence:u32 | type:16 bytes |
  length:u32 | num_kv:u32\<close>, 36 bytes, followed by \<^verbatim>\<open>data\<close>. A keyed object starts with
  \<^verbatim>\<open>key:16 bytes | obj_size:u32\<close>; the size of that header,
  \<^verbatim>\<open>sizeof(simple_cap_proto_kv_h_t)\<close>, is the parameter \<open>sizeof_simple_cap_proto_kv_h_t\<close>
  (the object bytes follow the header).
\<close>

definition sizeof_simple_cap_proto_t :: nat where
  "sizeof_simple_cap_proto_t = 36"

definition offsetof_signature :: nat where "offsetof_signature = 0"
definition offsetof_checksum :: nat where "offsetof_checksum = 4"
definition offsetof_sequence_number :: nat where "offsetof_sequence_number = 8"
definition offsetof_type :: nat where "offsetof_type = 12"
definition offsetof_packet_sz :: nat where "offsetof_packet_sz = 28"
definition offsetof_num_kv_pairs :: nat where "offsetof_num_kv_pairs = 32"
definition offsetof_obj_sz :: nat where "offsetof_obj_sz = 16"

subsection \<open>The payload codec\<close>

text \<open>
  Modelled from the spec: msgpack and msgpack\_adapter.h are not under src/. The spec has
  a self-describing map-of-string-to-value format with string, integer, float, binary,
  array and map primitives. \<open>as_T\<close> is \<^verbatim>\<open>as<T>()\<close>; \<open>None\<close> is the exception it throws
  on a value of another type or out of range.
\<close>

datatype msgpack_object =
    MNil
  | MBool bool
  | MInt int
  | MFloat real
  | MStr string
  | MBin "byte list"
  | MArray "msgpack_object list"
  | MMap "(string \<times> msgpack_object) list"

fun as_double :: "msgpack_object \<Rightarrow> real option" where
  "as_double (MFloat d) = Some d"
| "as_double (MInt i) = Some (real_of_int i)"
| "as_double _ = None"

fun as_int32_t :: "msgpack_object \<Rightarrow> int option" where
  "as_int32_t (MInt i) = (if - (2 ^ 31) \<le> i \<and> i < 2 ^ 31 then Some i else None)"
| "as_int32_t _ = None"

fun as_uint64_t :: "msgpack_object \<Rightarrow> nat option" where
  "as_uint64_t (MInt i) = (if 0 \<le> i \<and> i < 2 ^ 64 then Some (nat i) else None)"
| "as_uint64_t _ = None"

fun as_unsigned_int :: "msgpack_object \<Rightarrow> nat option" where
  "as_unsigned_int (MInt i) = (if 0 \<le> i \<and> i < 2 ^ 32 then Some (nat i) else None)"
| "as_unsigned_int _ = None"

fun as_string :: "msgpack_object \<Rightarrow> string option" where
  "as_string (MStr s) = Some s"
| "as_string _ = None"

text \<open>
  \<^verbatim>\<open>as<MsgpackStrMap>()\<close>: a \<^verbatim>\<open>std::map\<close> from the keys to the values, a later entry of a
  key replacing an earlier one.
\<close>

fun as_MsgpackStrMap :: "msgpack_object \<Rightarrow> (string \<rightharpoonup> msgpack_object) option" where
  "as_MsgpackStrMap (MMap kvs) = Some (map_of (rev kvs))"
| "as_MsgpackStrMap _ = None"

text \<open>
  Modelled from the spec: the class \<^verbatim>\<open>kis_gps_packinfo\<close> is not under src/. The spec has the
  fields \<^verbatim>\<open>lat, lon, alt, speed, heading, precision: f64, fix: i32, time: u64, name: string\<close>;
  the source assigns \<^verbatim>\<open>lat\<close>, \<^verbatim>\<open>lon\<close>, \<^verbatim>\<open>alt\<close>, \<^verbatim>\<open>speed\<close>, \<^verbatim>\<open>heading\<close>, \<^verbatim>\<open>precision\<close>,
  \<^verbatim>\<open>time\<close> (a \<^verbatim>\<open>time_t\<close>) and \<^verbatim>\<open>gpsname\<close>. A \<^verbatim>\<open>double\<close> is a real number here: the
  decoder stores values and computes nothing with them.
\<close>

record kis_gps_packinfo =
  lat :: real
  lon :: real
  alt :: real
  speed :: real
  heading :: real
  precision :: real
  fix_gps :: int
  time :: int
  gpsname :: string

text \<open>\<^verbatim>\<open>MsgpackAdapter::AsStringVector\<close>: the strings of an array of strings.\<close>

fun AsStringVector :: "msgpack_object \<Rightarrow> string list option" where
  "AsStringVector (MArray xs) = those (map as_string xs)"
| "AsStringVector _ = None"

subsection \<open>What the model takes from outside src/\<close>

type_synonym uuid = string

record externals =
  KIS_CAP_SIMPLE_PROTO_SIG :: uint32_t
  sizeof_simple_cap_proto_kv_h_t :: nat
  Adler32Checksum :: "byte list \<Rightarrow> uint32_t"
  WORDS_BIGENDIAN :: bool
  uninitialised :: "nat \<Rightarrow> byte"
  uninitialised_size :: nat
  msgpack_unpack :: "byte list \<Rightarrow> string + msgpack_object"
  type_error_what :: string
  msgpack_pack_chanhop :: "real \<Rightarrow> string list \<Rightarrow> byte list"
  uuid_parse :: "string \<Rightarrow> uuid option"
  StringToOpts :: "string \<Rightarrow> (string \<times> string) list option"
  StringToBool :: "string \<Rightarrow> bool \<Rightarrow> bool"
  SERVER_TIMESLICES_SEC :: nat
  kis_gps_packinfo_new :: kis_gps_packinfo

text \<open>
  \<^item> \<open>KIS_CAP_SIMPLE_PROTO_SIG\<close>, \<open>sizeof_simple_cap_proto_kv_h_t\<close>: constants of
    simple\_datasource\_proto.h.
  \<^item> \<open>Adler32Checksum\<close>: the checksum of util.cc over a byte range.
  \<^item> \<open>WORDS_BIGENDIAN\<close>: the byte order of the host.
  \<^item> \<open>uninitialised\<close>: the content of freshly allocated memory, by offset;
    \<open>uninitialised_size\<close>: the content of a \<^verbatim>\<open>size\<close> member that no constructor assigned.
  \<^item> \<open>msgpack_unpack\<close>: \<^verbatim>\<open>msgpack::unpack\<close>, \<open>Inl what\<close> when it throws an exception with
    that text; \<open>type_error_what\<close>: the text of the exception that \<^verbatim>\<open>as<T>()\<close> throws;
    \<open>msgpack_pack_chanhop\<close>: the packer's bytes for the map \<^verbatim>\<open>{rate, channels}\<close>.
  \<^item> \<open>uuid_parse\<close>: the constructor \<^verbatim>\<open>uuid(string)\<close>, \<open>None\<close> when it sets \<^verbatim>\<open>error\<close>.
  \<^item> \<open>StringToOpts\<close>: the option-list parser of util.cc, \<open>None\<close> when it returns a
    negative value; \<open>StringToBool\<close>: the boolean parser with its default.
  \<^item> \<open>SERVER_TIMESLICES_SEC\<close>: timer ticks per second (timetracker.h).
  \<^item> \<open>kis_gps_packinfo_new\<close>: the record that \<^verbatim>\<open>new kis_gps_packinfo()\<close> constructs.
\<close>

subsection \<open>The frame decoder of BufferAvailable\<close>

text \<open>
  The constructor \<^verbatim>\<open>KisDatasourceCapKeyedObject(simple_cap_proto_kv *in_kp)\<close>, with \<open>in_kp\<close>
  the offset \<open>p\<close> of the record in the buffer: the key up to its first NUL (at most 16
  characters), the size from \<^verbatim>\<open>obj_sz\<close>, and a copy of that many bytes after the header.
  \<open>None\<close> is a read outside the buffer.
\<close>

definition KisDatasourceCapKeyedObject_of_kv ::
  "externals \<Rightarrow> byte list \<Rightarrow> nat \<Rightarrow> KisDatasourceCapKeyedObject option" where
  "KisDatasourceCapKeyedObject_of_kv X buf p =
     (case peek buf p 16 of
        None \<Rightarrow> None
      | Some ckey \<Rightarrow>
          (case peek buf (p + offsetof_obj_sz) 4 of
             None \<Rightarrow> None
           | Some obj_sz \<Rightarrow>
               (case peek buf (p + sizeof_simple_cap_proto_kv_h_t X) (unat (kis_ntoh32 obj_sz)) of
                  None \<Rightarrow> None
                | Some obj \<Rightarrow>
                    Some \<lparr> key = snprintf17 ckey,
                           size_kv = unat (kis_ntoh32 obj_sz),
                           object = obj \<rparr>)))"

text \<open>
  The loop over \<^verbatim>\<open>kvn < num_kv_pairs\<close>, with \<open>n\<close> the iterations left. Each iteration
  reads the record at \<^verbatim>\<open>frame_header->data[data_offt]\<close>, then assigns
  \<^verbatim>\<open>data_offt = sizeof(simple_cap_proto_kv_h_t) + obj_sz\<close> (an assignment, as in the
  source), and stores the object under its lowercased key.
\<close>

fun extract_kv_pairs ::
  "externals \<Rightarrow> byte list \<Rightarrow> nat \<Rightarrow> nat \<Rightarrow> KVmap \<Rightarrow> KVmap option" where
  "extract_kv_pairs X buf 0 data_offt kv_map = Some kv_map"
| "extract_kv_pairs X buf (Suc n) data_offt kv_map =
     (case KisDatasourceCapKeyedObject_of_kv X buf (sizeof_simple_cap_proto_t + data_offt) of
        None \<Rightarrow> None
      | Some kv \<Rightarrow>
          extract_kv_pairs X buf n
            (sizeof_simple_cap_proto_kv_h_t X + size_kv kv)
            (map_assign string_less (StrLower (key kv)) kv kv_map))"

text \<open>
  What \<^verbatim>\<open>BufferAvailable\<close> does with the \<open>in_amt\<close> bytes it peeks:
  \<^item> \<open>NotEnoughData\<close>: it returns and consumes nothing;
  \<^item> \<open>InvalidFrame reason\<close>: it calls \<^verbatim>\<open>trigger_error(reason)\<close>;
  \<^item> \<open>Dispatched frame_sz ctype kv_map\<close>: it consumes \<open>frame_sz\<close> bytes and calls
    \<^verbatim>\<open>proto_dispatch_packet(ctype, kv_map)\<close>;
  \<^item> \<open>ReadOutsideBuffer\<close>: it reads past the end of \<open>buf\<close> (undefined behaviour).
\<close>

datatype BufferAvailable_result =
    NotEnoughData
  | InvalidFrame string
  | Dispatched nat string KVmap
  | ReadOutsideBuffer

definition BufferAvailable :: "externals \<Rightarrow> byte list \<Rightarrow> BufferAvailable_result" where
  "BufferAvailable X buf =
     (let in_amt = length buf in
      if in_amt < sizeof_simple_cap_proto_t then NotEnoughData
      else if kis_ntoh32 (take 4 (drop offsetof_signature buf)) \<noteq> KIS_CAP_SIMPLE_PROTO_SIG X
      then InvalidFrame ''Source got invalid control frame''
      else
        let frame_sz = unat (kis_ntoh32 (take 4 (drop offsetof_packet_sz buf))) in
        if frame_sz > in_amt then NotEnoughData
        else
          let frame_checksum = kis_ntoh32 (take 4 (drop offsetof_checksum buf));
              buf = store buf offsetof_checksum [0, 0, 0, 0];
              calc_checksum = Adler32Checksum X (take frame_sz buf)
          in
            if calc_checksum \<noteq> frame_checksum
            then InvalidFrame ''Source got invalid control frame''
            else
              (case extract_kv_pairs X buf
                      (unat (kis_ntoh32 (take 4 (drop offsetof_num_kv_pairs buf)))) 0 [] of
                 None \<Rightarrow> ReadOutsideBuffer
               | Some kv_map \<Rightarrow>
                   Dispatched frame_sz (snprintf17 (take 16 (drop offsetof_type buf))) kv_map))"


subsection \<open>The controller and what it holds\<close>

record KisDatasourceBuilder =
  list_capable :: bool
  probe_capable :: bool
  local_capable :: bool
  tune_capable :: bool

record KisDatasourceInterface =
  interface :: string
  flags :: string

text \<open>
  An invocation of a completion callback: the identity of the function object, the
  transaction it received and the result it received.
\<close>

datatype callback_call =
    list_callback nat uint32_t "KisDatasourceInterface list"
  | probe_callback nat uint32_t bool string
  | open_callback nat uint32_t bool string
  | configure_callback nat uint32_t bool string

text \<open>
  Modelled from the spec: the class \<^verbatim>\<open>tracked_command\<close> (kis\_datasource.h) is not under
  src/. The spec has a pending command \<^verbatim>\<open>{ transaction, sequence, completion, timer_id? }\<close>;
  the source reads the four callback members and \<^verbatim>\<open>timer_id\<close>, and its constructor takes
  the transaction and the sequence number. A new command has no callback and no timer.
\<close>

record tracked_command =
  transaction :: uint32_t
  command_seq :: uint32_t
  list_cb :: "nat option"
  probe_cb :: "nat option"
  open_cb :: "nat option"
  configure_cb :: "nat option"
  timer_id :: int

definition tracked_command_new :: "uint32_t \<Rightarrow> uint32_t \<Rightarrow> tracked_command" where
  "tracked_command_new in_trans in_seq =
     \<lparr> transaction = in_trans, command_seq = in_seq, list_cb = None, probe_cb = None,
       open_cb = None, configure_cb = None, timer_id = - 1 \<rparr>"

text \<open>
  Modelled from the spec: the timer service (timetracker.h) is not under src/. The spec
  has \<^verbatim>\<open>register_timer(delay, cb) \<rightarrow> id\<close> and \<^verbatim>\<open>remove_timer(id)\<close>. The only callback
  registered by the code modelled here is the lambda of \<^verbatim>\<open>handle_source_error\<close>, which
  calls \<^verbatim>\<open>open_interface(get_source_definition(), 0, NULL)\<close>.
\<close>

datatype timer_callback = reopen_source

record Timetracker =
  next_timer_id :: int
  timers :: "(int \<times> nat \<times> timer_callback) list"

definition RegisterTimer :: "nat \<Rightarrow> timer_callback \<Rightarrow> Timetracker \<Rightarrow> int \<times> Timetracker" where
  "RegisterTimer in_timeslices cb tt =
     (next_timer_id tt,
      tt\<lparr> next_timer_id := next_timer_id tt + 1,
          timers := timers tt @ [(next_timer_id tt, in_timeslices, cb)] \<rparr>)"

definition RemoveTimer :: "int \<Rightarrow> Timetracker \<Rightarrow> Timetracker" where
  "RemoveTimer in_timerid tt = tt\<lparr> timers := filter (\<lambda>t. fst t \<noteq> in_timerid) (timers tt) \<rparr>"

text \<open>
  Modelled from the spec: the transport \<^verbatim>\<open>RingbufferHandler\<close> is not under src/. The spec
  has \<^verbatim>\<open>write(bytes)\<close>, \<^verbatim>\<open>close(reason)\<close> and \<^verbatim>\<open>error(reason)\<close>. The model keeps the
  bytes written, the room left in the write buffer and the close and error calls received.
  \<^verbatim>\<open>PutWriteBufferData(data, len, true)\<close> writes all of the bytes or none and returns the
  number written.
\<close>

datatype handler_call = ErrorHandler string | CloseHandler string

record RingbufferHandler =
  write_buffer :: "byte list"
  write_available :: nat
  handler_calls :: "handler_call list"

definition PutWriteBufferData :: "byte list \<Rightarrow> RingbufferHandler \<Rightarrow> nat \<times> RingbufferHandler" where
  "PutWriteBufferData data rb =
     (if length data \<le> write_available rb
      then (length data,
            rb\<lparr> write_buffer := write_buffer rb @ data,
                write_available := write_available rb - length data \<rparr>)
      else (0, rb))"

definition call_handler :: "handler_call \<Rightarrow> RingbufferHandler \<Rightarrow> RingbufferHandler" where
  "call_handler c rb = rb\<lparr> handler_calls := handler_calls rb @ [c] \<rparr>"

record KisDatasource =
  source_builder :: KisDatasourceBuilder
  ringbuf_handler :: "RingbufferHandler option"
  timetracker :: Timetracker
  next_cmd_sequence :: uint32_t
  error_timer_id :: int
  local_uuid :: bool
  source_definition_opts :: "(string \<times> string) list"
  command_ack_map :: "(uint32_t \<times> tracked_command) list"
  source_name :: string
  source_uuid :: uuid
  source_definition :: string
  source_interface :: string
  source_channels_vec :: "string list"
  source_channel :: string
  source_hop_rate :: real
  source_hop_vec :: "string list"
  source_error :: bool
  source_error_reason :: string
  source_retry :: bool
  source_retry_attempts :: uint32_t
  callbacks :: "callback_call list"

definition invoke :: "callback_call \<Rightarrow> KisDatasource \<Rightarrow> KisDatasource" where
  "invoke c s = s\<lparr> callbacks := callbacks s @ [c] \<rparr>"

subsection \<open>write\_packet\<close>

text \<open>
  The object that the first loop of \<^verbatim>\<open>write_packet\<close> allocates and fills for one entry:
  \<^verbatim>\<open>new char[sizeof(simple_cap_proto_kv_h_t) + size]\<close>, the key, the size and the content.
\<close>

definition write_packet_kvt :: "externals \<Rightarrow> KisDatasourceCapKeyedObject \<Rightarrow> byte list" where
  "write_packet_kvt X obj =
     (let kvt = map (uninitialised X) [0 ..< sizeof_simple_cap_proto_kv_h_t X + size_kv obj];
          kvt = store kvt 0 (snprintf16 (key obj));
          kvt = store kvt offsetof_obj_sz (kis_hton32 (of_nat (size_kv obj)));
          kvt = store kvt (sizeof_simple_cap_proto_kv_h_t X) (take (size_kv obj) (object obj))
      in kvt)"

text \<open>
  The first loop, over the entries of \<open>in_kvpairs\<close> in the order of the map. It builds
  \<open>kvt\<close> and adds its size to \<open>kvpair_len\<close>. The source never appends \<open>kvt\<close> to
  \<open>proto_kvpairs\<close>: the vector leaves the loop as it entered it.
\<close>

fun write_packet_loop1 ::
  "externals \<Rightarrow> KVmap \<Rightarrow> byte list list \<times> nat \<Rightarrow> byte list list \<times> nat" where
  "write_packet_loop1 X [] (proto_kvpairs, kvpair_len) = (proto_kvpairs, kvpair_len)"
| "write_packet_loop1 X (i # in_kvpairs) (proto_kvpairs, kvpair_len) =
     (let kvt = write_packet_kvt X (snd i)
      in write_packet_loop1 X in_kvpairs
           (proto_kvpairs, kvpair_len + (sizeof_simple_cap_proto_kv_h_t X + size_kv (snd i))))"

text \<open>
  The second loop, over \<open>proto_kvpairs\<close>: it copies \<^verbatim>\<open>obj_sz + sizeof(simple_cap_proto_kv_h_t)\<close>
  bytes of each element to \<^verbatim>\<open>ret->data[kvpair_offt]\<close> and advances \<open>kvpair_offt\<close>.
\<close>

fun write_packet_loop2 ::
  "externals \<Rightarrow> byte list list \<Rightarrow> byte list \<times> nat \<Rightarrow> byte list \<times> nat" where
  "write_packet_loop2 X [] (ret, kvpair_offt) = (ret, kvpair_offt)"
| "write_packet_loop2 X (kv # proto_kvpairs) (ret, kvpair_offt) =
     (let len = unat (kis_ntoh32 (take 4 (drop offsetof_obj_sz kv)))
                + sizeof_simple_cap_proto_kv_h_t X;
          ret = store ret (sizeof_simple_cap_proto_t + kvpair_offt) (take len kv)
      in write_packet_loop2 X proto_kvpairs (ret, kvpair_offt + len))"

text \<open>
  The length \<open>pack_len\<close> and the buffer \<open>ret\<close> that \<^verbatim>\<open>write_packet\<close> hands to the
  transport, for the command \<open>in_cmd\<close>, the map \<open>in_kvpairs\<close> and the value \<open>seq\<close> of
  \<^verbatim>\<open>next_cmd_sequence\<close>.
\<close>

definition write_packet_pack_len :: "externals \<Rightarrow> KVmap \<Rightarrow> nat" where
  "write_packet_pack_len X in_kvpairs =
     (let (proto_kvpairs, kvpair_len) = write_packet_loop1 X in_kvpairs ([], 0)
      in sizeof_simple_cap_proto_t + kvpair_len)"

definition write_packet_frame :: "externals \<Rightarrow> string \<Rightarrow> KVmap \<Rightarrow> uint32_t \<Rightarrow> byte list" where
  "write_packet_frame X in_cmd in_kvpairs seq =
     (let (proto_kvpairs, kvpair_len) = write_packet_loop1 X in_kvpairs ([], 0);
          pack_len = sizeof_simple_cap_proto_t + kvpair_len;
          ret = map (uninitialised X) [0 ..< pack_len];
          ret = store ret offsetof_signature (kis_hton32 (KIS_CAP_SIMPLE_PROTO_SIG X));
          ret = store ret offsetof_checksum [0, 0, 0, 0];
          ret = store ret offsetof_sequence_number (kis_hton32 seq);
          ret = store ret offsetof_packet_sz (kis_hton32 (of_nat pack_len));
          ret = store ret offsetof_type (snprintf16 in_cmd);
          ret = store ret offsetof_num_kv_pairs (kis_hton32 (of_nat (length proto_kvpairs)));
          (ret, kvpair_offt) = write_packet_loop2 X proto_kvpairs (ret, 0);
          calc_checksum = Adler32Checksum X ret;
          ret = store ret offsetof_checksum (kis_hton32 calc_checksum)
      in ret)"

text \<open>
  \<^verbatim>\<open>write_packet\<close>: \<open>Inl\<close> is the return value \<^verbatim>\<open>false\<close>, \<open>Inr (ret_seqno, s)\<close> is the
  return value \<^verbatim>\<open>true\<close> with the sequence number it assigned to \<open>ret_seqno\<close>. The callers
  read \<open>ret_seqno\<close> only after \<^verbatim>\<open>true\<close>.
\<close>

definition write_packet ::
  "externals \<Rightarrow> string \<Rightarrow> KVmap \<Rightarrow> KisDatasource \<Rightarrow> KisDatasource + uint32_t \<times> KisDatasource" where
  "write_packet X in_cmd in_kvpairs s =
     (case ringbuf_handler s of
        None \<Rightarrow> Inl s
      | Some rb \<Rightarrow>
          (let ret = write_packet_frame X in_cmd in_kvpairs (next_cmd_sequence s);
               pack_len = write_packet_pack_len X in_kvpairs;
               ret_seqno = kis_ntoh32_value (WORDS_BIGENDIAN X) (next_cmd_sequence s);
               s = s\<lparr> next_cmd_sequence := next_cmd_sequence s + 1 \<rparr>;
               (ret_sz, rb) = PutWriteBufferData ret rb;
               s = s\<lparr> ringbuf_handler := Some rb \<rparr>
           in if ret_sz \<noteq> pack_len then Inl s else Inr (ret_seqno, s)))"


subsection \<open>The command registry\<close>

text \<open>
  \<^verbatim>\<open>cancel_command\<close>: when the sequence number is registered, the first callback of the
  command that is set receives the failure, the timer of the command is removed, and the
  command is erased.
\<close>

definition cancel_command :: "uint32_t \<Rightarrow> string \<Rightarrow> KisDatasource \<Rightarrow> KisDatasource" where
  "cancel_command in_transaction in_error s =
     (case map_of (command_ack_map s) in_transaction of
        None \<Rightarrow> s
      | Some cmd \<Rightarrow>
          (let s = (case list_cb cmd of
                      Some cb \<Rightarrow> invoke (list_callback cb (transaction cmd) []) s
                    | None \<Rightarrow>
                   (case probe_cb cmd of
                      Some cb \<Rightarrow> invoke (probe_callback cb (transaction cmd) False in_error) s
                    | None \<Rightarrow>
                   (case open_cb cmd of
                      Some cb \<Rightarrow> invoke (open_callback cb (transaction cmd) False in_error) s
                    | None \<Rightarrow>
                   (case configure_cb cmd of
                      Some cb \<Rightarrow> invoke (configure_callback cb (transaction cmd) False in_error) s
                    | None \<Rightarrow> s))));
               s = (if timer_id cmd > - 1
                    then s\<lparr> timetracker := RemoveTimer (timer_id cmd) (timetracker s) \<rparr>
                    else s)
           in s\<lparr> command_ack_map := map_erase in_transaction (command_ack_map s) \<rparr>))"

text \<open>
  \<^verbatim>\<open>cancel_all_commands\<close>:
  \<^verbatim>\<open>
    auto i = command_ack_map.begin();
    while (i != command_ack_map.end())
        cancel_command(i->first, in_error);
  \<close>
  The iterator \<open>i\<close> is assigned once, before the loop, and by nothing in the loop. It is
  modelled by the key of the node it points to, \<open>None\<close> for \<^verbatim>\<open>end()\<close>. The test
  \<^verbatim>\<open>i != command_ack_map.end()\<close> compares \<open>i\<close> with the end of the map, and \<open>i\<close> keeps its
  value: after the first \<^verbatim>\<open>cancel_command\<close> has erased the node, \<open>i\<close> dangles (undefined
  behaviour in C++), still differs from \<^verbatim>\<open>end()\<close>, and \<^verbatim>\<open>i->first\<close> is read from the
  freed node; the model reads the key that was there. \<open>None\<close> is "does not return".
\<close>

definition map_begin :: "('k \<times> 'v) list \<Rightarrow> 'k option" where
  "map_begin m = (case m of [] \<Rightarrow> None | kv # _ \<Rightarrow> Some (fst kv))"

partial_function (option) cancel_all_commands_loop ::
  "uint32_t option \<Rightarrow> string \<Rightarrow> KisDatasource \<Rightarrow> KisDatasource option" where
  "cancel_all_commands_loop i in_error s =
     (case i of
        None \<Rightarrow> Some s
      | Some first \<Rightarrow> cancel_all_commands_loop i in_error (cancel_command first in_error s))"

declare cancel_all_commands_loop.simps [code]

definition cancel_all_commands :: "string \<Rightarrow> KisDatasource \<Rightarrow> KisDatasource option" where
  "cancel_all_commands in_error s =
     cancel_all_commands_loop (map_begin (command_ack_map s)) in_error s"

subsection \<open>The error path\<close>

definition trigger_error :: "string \<Rightarrow> KisDatasource \<Rightarrow> KisDatasource option" where
  "trigger_error in_error s =
     do {
       s \<leftarrow> cancel_all_commands in_error s;
       let s = (case ringbuf_handler s of
                  None \<Rightarrow> s
                | Some rb \<Rightarrow> s\<lparr> ringbuf_handler := Some (call_handler (ErrorHandler in_error) rb) \<rparr>);
       Some (s\<lparr> source_error := True, source_error_reason := in_error \<rparr>)
     }"

definition BufferError :: "string \<Rightarrow> KisDatasource \<Rightarrow> KisDatasource option" where
  "BufferError in_error s = trigger_error in_error s"

definition close_source :: "KisDatasource \<Rightarrow> KisDatasource option" where
  "close_source s =
     do {
       let s = (if error_timer_id s > 0
                then s\<lparr> timetracker := RemoveTimer (error_timer_id s) (timetracker s) \<rparr>
                else s);
       s \<leftarrow> cancel_all_commands ''Closing source'' s;
       Some (case ringbuf_handler s of
               None \<Rightarrow> s
             | Some rb \<Rightarrow>
                 s\<lparr> ringbuf_handler := Some (call_handler (CloseHandler ''Closing source'') rb) \<rparr>)
     }"

subsection \<open>The source definition\<close>

text \<open>\<^verbatim>\<open>in_definition.find(":")\<close>: the position of the first colon, \<open>None\<close> for \<^verbatim>\<open>npos\<close>.\<close>

definition find_colon :: "string \<Rightarrow> nat option" where
  "find_colon str =
     (let cpos = length (takeWhile (\<lambda>c. c \<noteq> CHR '':'') str)
      in if cpos = length str then None else Some cpos)"

text \<open>
  \<^verbatim>\<open>parse_interface_definition\<close>. The member \<^verbatim>\<open>source_definition_opts\<close> is assigned entry by
  entry from the parsed options and is read afterwards; nothing in the source clears it.
\<close>

definition parse_interface_definition ::
  "externals \<Rightarrow> string \<Rightarrow> KisDatasource \<Rightarrow> bool \<times> KisDatasource" where
  "parse_interface_definition X in_definition s =
     (let s = s\<lparr> local_uuid := False \<rparr> in
      case find_colon in_definition of
        None \<Rightarrow> (True, s\<lparr> source_interface := in_definition, source_name := in_definition \<rparr>)
      | Some cpos \<Rightarrow>
          (let s = s\<lparr> source_interface := take cpos in_definition \<rparr> in
           case StringToOpts X (take (length in_definition - cpos - 1)
                                  (drop (cpos + 1) in_definition)) of
             None \<Rightarrow> (False, s)
           | Some options \<Rightarrow>
               (let s = s\<lparr> source_definition_opts :=
                            foldl (\<lambda>m i. map_assign string_less (StrLower (fst i)) (snd i) m)
                              (source_definition_opts s) options \<rparr>;
                    s = (case map_of (source_definition_opts s) ''name'' of
                           Some name \<Rightarrow> s\<lparr> source_name := name \<rparr>
                         | None \<Rightarrow> s\<lparr> source_name := source_interface s \<rparr>);
                    retry = (\<lambda>s. case map_of (source_definition_opts s) ''retry'' of
                                    Some r \<Rightarrow> (True, s\<lparr> source_retry := StringToBool X r True \<rparr>)
                                  | None \<Rightarrow> (True, s))
                in case map_of (source_definition_opts s) ''uuid'' of
                     Some text \<Rightarrow>
                       (case uuid_parse X text of
                          None \<Rightarrow> (False, s)
                        | Some u \<Rightarrow> retry (s\<lparr> source_uuid := u, local_uuid := True \<rparr>))
                   | None \<Rightarrow> retry s)))"

text \<open>
  \<^verbatim>\<open>handle_kv_uuid\<close>: the text of the object is parsed; a text that does not parse trips
  the error path; a parsed UUID is stored when \<^verbatim>\<open>local_uuid\<close> is false.
\<close>

definition handle_kv_uuid ::
  "externals \<Rightarrow> KisDatasourceCapKeyedObject \<Rightarrow> KisDatasource \<Rightarrow> KisDatasource option" where
  "handle_kv_uuid X in_obj s =
     (case uuid_parse X (map char_of_byte (take (size_kv in_obj) (object in_obj))) of
        None \<Rightarrow> trigger_error ''unable to parse UUID'' s
      | Some parsed_uuid \<Rightarrow>
          Some (if \<not> local_uuid s then s\<lparr> source_uuid := parsed_uuid \<rparr> else s))"


subsection \<open>Responses\<close>

text \<open>
  Modelled from the spec: the struct \<^verbatim>\<open>simple_cap_proto_success_value\<close> is not under src/;
  the spec has a fixed 5-byte record of the success flag and the sequence number.
\<close>

definition sizeof_simple_cap_proto_success_value :: nat where
  "sizeof_simple_cap_proto_success_value = 5"

text \<open>
  \<^verbatim>\<open>get_kv_success\<close> and \<^verbatim>\<open>get_kv_success_sequence\<close>: an object of another size trips the
  error path, and the functions return \<^verbatim>\<open>false\<close> (the sequence number 0).
\<close>

definition get_kv_success ::
  "KisDatasourceCapKeyedObject \<Rightarrow> KisDatasource \<Rightarrow> (bool \<times> KisDatasource) option" where
  "get_kv_success in_obj s =
     (if size_kv in_obj \<noteq> sizeof_simple_cap_proto_success_value
      then do { s \<leftarrow> trigger_error ''Invalid SUCCESS object in response'' s; Some (False, s) }
      else Some (take 1 (object in_obj) \<noteq> [0], s))"

definition get_kv_success_sequence ::
  "KisDatasourceCapKeyedObject \<Rightarrow> KisDatasource \<Rightarrow> (uint32_t \<times> KisDatasource) option" where
  "get_kv_success_sequence in_obj s =
     (if size_kv in_obj \<noteq> sizeof_simple_cap_proto_success_value
      then do { s \<leftarrow> trigger_error ''Invalid SUCCESS object in response'' s; Some (0, s) }
      else Some (kis_ntoh32 (take 4 (drop 1 (object in_obj))), s))"

text \<open>
  The \<^verbatim>\<open>try\<close> block of \<^verbatim>\<open>handle_kv_message\<close>: \<open>Inl what\<close> is an exception with that text,
  \<open>Inr msg\<close> the message. The function returns the message, or the reason it tripped the
  error path with.
\<close>

definition handle_kv_message_try ::
  "externals \<Rightarrow> KisDatasourceCapKeyedObject \<Rightarrow> string + string" where
  "handle_kv_message_try X in_obj =
     (case msgpack_unpack X (take (size_kv in_obj) (object in_obj)) of
        Inl what \<Rightarrow> Inl what
      | Inr deserialized \<Rightarrow>
          (case as_MsgpackStrMap deserialized of
             None \<Rightarrow> Inl (type_error_what X)
           | Some dict \<Rightarrow>
               (case dict ''msg'' of
                  None \<Rightarrow> Inl ''missing 'msg' entry''
                | Some m \<Rightarrow>
                    (case as_string m of
                       None \<Rightarrow> Inl (type_error_what X)
                     | Some msg \<Rightarrow>
                         (case dict ''flags'' of
                            None \<Rightarrow> Inl ''missing 'flags' entry''
                          | Some f \<Rightarrow>
                              (case as_unsigned_int f of
                                 None \<Rightarrow> Inl (type_error_what X)
                               | Some msg_flags \<Rightarrow> Inr msg))))))"

definition handle_kv_message ::
  "externals \<Rightarrow> KisDatasourceCapKeyedObject \<Rightarrow> KisDatasource \<Rightarrow> (string \<times> KisDatasource) option" where
  "handle_kv_message X in_obj s =
     (case handle_kv_message_try X in_obj of
        Inl what \<Rightarrow>
          do {
            s \<leftarrow> trigger_error (''failed to unpack message bundle: '' @ what) s;
            Some (''failed to unpack message bundle: '' @ what, s)
          }
      | Inr msg \<Rightarrow> Some (msg, s))"

text \<open>
  \<^verbatim>\<open>handle_kv_channels\<close>: a \<^verbatim>\<open>channels\<close> entry replaces the list of supported channels;
  a dictionary without one changes nothing.
\<close>

definition handle_kv_channels ::
  "externals \<Rightarrow> KisDatasourceCapKeyedObject \<Rightarrow> KisDatasource \<Rightarrow> KisDatasource option" where
  "handle_kv_channels X in_obj s =
     (let catch = (\<lambda>what s. trigger_error (''failed to unpack proberesp channels bundle: '' @ what) s)
      in case msgpack_unpack X (take (size_kv in_obj) (object in_obj)) of
           Inl what \<Rightarrow> catch what s
         | Inr deserialized \<Rightarrow>
             (case as_MsgpackStrMap deserialized of
                None \<Rightarrow> catch (type_error_what X) s
              | Some dict \<Rightarrow>
                  (case dict ''channels'' of
                     None \<Rightarrow> Some s
                   | Some v \<Rightarrow>
                       (case AsStringVector v of
                          None \<Rightarrow> catch (type_error_what X) s
                        | Some channel_vec \<Rightarrow>
                            Some (s\<lparr> source_channels_vec :=
                                         foldl (\<lambda>vec c. vec @ [c]) [] channel_vec \<rparr>)))))"

definition handle_kv_config_channel ::
  "KisDatasourceCapKeyedObject \<Rightarrow> KisDatasource \<Rightarrow> KisDatasource" where
  "handle_kv_config_channel in_obj s =
     s\<lparr> source_channel := map char_of_byte (take (size_kv in_obj) (object in_obj)) \<rparr>"

text \<open>
  \<^verbatim>\<open>handle_kv_config_hop\<close>: the \<^verbatim>\<open>channels\<close> entry is required and replaces the hop list,
  then the \<^verbatim>\<open>rate\<close> entry is required and replaces the hop rate. An exception after the hop
  list was replaced leaves it replaced.
\<close>

definition handle_kv_config_hop ::
  "externals \<Rightarrow> KisDatasourceCapKeyedObject \<Rightarrow> KisDatasource \<Rightarrow> KisDatasource option" where
  "handle_kv_config_hop X in_obj s =
     (let catch = (\<lambda>what s. trigger_error (''failed to unpack chanset bundle: '' @ what) s)
      in case msgpack_unpack X (take (size_kv in_obj) (object in_obj)) of
           Inl what \<Rightarrow> catch what s
         | Inr deserialized \<Rightarrow>
             (case as_MsgpackStrMap deserialized of
                None \<Rightarrow> catch (type_error_what X) s
              | Some dict \<Rightarrow>
                  (case dict ''channels'' of
                     None \<Rightarrow> catch ''channel list missing in hop config'' s
                   | Some v \<Rightarrow>
                       (case AsStringVector v of
                          None \<Rightarrow> catch (type_error_what X) s
                        | Some channel_vec \<Rightarrow>
                            (let s = s\<lparr> source_hop_vec :=
                                          foldl (\<lambda>vec c. vec @ [c]) [] channel_vec \<rparr>
                             in case dict ''rate'' of
                                  None \<Rightarrow> catch ''rate missing in hop config'' s
                                | Some r \<Rightarrow>
                                    (case as_double r of
                                       None \<Rightarrow> catch (type_error_what X) s
                                     | Some rate \<Rightarrow> Some (s\<lparr> source_hop_rate := rate \<rparr>)))))))"

text \<open>
  The end of \<^verbatim>\<open>proto_packet_open_resp\<close> and of \<^verbatim>\<open>proto_packet_configresp\<close>, from the
  lookup of the \<^verbatim>\<open>success\<close> object on, is the same code but for the callback member
  (\<^verbatim>\<open>open_cb\<close>, \<^verbatim>\<open>configure_cb\<close>) and the reason of the missing object. The command found
  under the sequence number is erased whether its callback member is set or not.
\<close>

definition proto_packet_open_resp ::
  "externals \<Rightarrow> KVmap \<Rightarrow> KisDatasource \<Rightarrow> KisDatasource option" where
  "proto_packet_open_resp X in_kvpairs s =
     do {
       (msg, s) \<leftarrow> (case map_of in_kvpairs ''message'' of
                       Some obj \<Rightarrow> handle_kv_message X obj s
                     | None \<Rightarrow> Some ([], s));
       s \<leftarrow> (case map_of in_kvpairs ''channels'' of
                Some obj \<Rightarrow> handle_kv_channels X obj s
              | None \<Rightarrow> Some s);
       s \<leftarrow> (case map_of in_kvpairs ''chanset'' of
                Some obj \<Rightarrow> Some (handle_kv_config_channel obj s)
              | None \<Rightarrow> Some s);
       s \<leftarrow> (case map_of in_kvpairs ''chanhop'' of
                Some obj \<Rightarrow> handle_kv_config_hop X obj s
              | None \<Rightarrow> Some s);
       s \<leftarrow> (case map_of in_kvpairs ''uuid'' of
                Some obj \<Rightarrow> handle_kv_uuid X obj s
              | None \<Rightarrow> Some s);
       (case map_of in_kvpairs ''success'' of
          None \<Rightarrow> trigger_error ''No valid response found for open request'' s
        | Some obj \<Rightarrow>
            do {
              (seq, s) \<leftarrow> get_kv_success_sequence obj s;
              s \<leftarrow> (case map_of (command_ack_map s) seq of
                       None \<Rightarrow> Some s
                     | Some ci \<Rightarrow>
                         do {
                           s \<leftarrow> (case open_cb ci of
                                    None \<Rightarrow> Some s
                                  | Some cb \<Rightarrow>
                                      do {
                                        (success, s) \<leftarrow> get_kv_success obj s;
                                        Some (invoke (open_callback cb seq success msg) s)
                                      });
                           Some (s\<lparr> command_ack_map := map_erase seq (command_ack_map s) \<rparr>)
                         });
              (success, s) \<leftarrow> get_kv_success obj s;
              if \<not> success then trigger_error msg s else Some s
            })
     }"

definition proto_packet_configresp ::
  "externals \<Rightarrow> KVmap \<Rightarrow> KisDatasource \<Rightarrow> KisDatasource option" where
  "proto_packet_configresp X in_kvpairs s =
     do {
       (msg, s) \<leftarrow> (case map_of in_kvpairs ''message'' of
                       Some obj \<Rightarrow> handle_kv_message X obj s
                     | None \<Rightarrow> Some ([], s));
       s \<leftarrow> (case map_of in_kvpairs ''chanset'' of
                Some obj \<Rightarrow> Some (handle_kv_config_channel obj s)
              | None \<Rightarrow> Some s);
       s \<leftarrow> (case map_of in_kvpairs ''chanhop'' of
                Some obj \<Rightarrow> handle_kv_config_hop X obj s
              | None \<Rightarrow> Some s);
       (case map_of in_kvpairs ''success'' of
          None \<Rightarrow> trigger_error ''No valid response found for config request'' s
        | Some obj \<Rightarrow>
            do {
              (seq, s) \<leftarrow> get_kv_success_sequence obj s;
              s \<leftarrow> (case map_of (command_ack_map s) seq of
                       None \<Rightarrow> Some s
                     | Some ci \<Rightarrow>
                         do {
                           s \<leftarrow> (case configure_cb ci of
                                    None \<Rightarrow> Some s
                                  | Some cb \<Rightarrow>
                                      do {
                                        (success, s) \<leftarrow> get_kv_success obj s;
                                        Some (invoke (configure_callback cb seq success msg) s)
                                      });
                           Some (s\<lparr> command_ack_map := map_erase seq (command_ack_map s) \<rparr>)
                         });
              (success, s) \<leftarrow> get_kv_success obj s;
              if \<not> success then trigger_error msg s else Some s
            })
     }"

subsection \<open>Sending commands\<close>

text \<open>
  The constructor \<^verbatim>\<open>KisDatasourceCapKeyedObject(string in_key, const char *in_object,
  ssize_t in_len)\<close>: it assigns \<^verbatim>\<open>key\<close> and \<^verbatim>\<open>object\<close>, and does not assign \<^verbatim>\<open>size\<close>.
\<close>

definition KisDatasourceCapKeyedObject_new ::
  "externals \<Rightarrow> string \<Rightarrow> byte list \<Rightarrow> KisDatasourceCapKeyedObject" where
  "KisDatasourceCapKeyedObject_new X in_key in_object =
     \<lparr> key = take 16 in_key, size_kv = uninitialised_size X, object = in_object \<rparr>"

definition send_command_list_interfaces ::
  "externals \<Rightarrow> uint32_t \<Rightarrow> nat option \<Rightarrow> KisDatasource \<Rightarrow> KisDatasource" where
  "send_command_list_interfaces X in_transaction in_cb s =
     (let kvmap = [] in
      case write_packet X ''LISTDEVICE'' kvmap s of
        Inl s \<Rightarrow>
          (case in_cb of
             None \<Rightarrow> s
           | Some cb \<Rightarrow> invoke (list_callback cb in_transaction []) s)
      | Inr (seqno, s) \<Rightarrow>
          (let cmd = (tracked_command_new in_transaction seqno)\<lparr> list_cb := in_cb \<rparr>
           in s\<lparr> command_ack_map := map_assign uint32_less seqno cmd (command_ack_map s) \<rparr>))"

definition send_command_probe_interface ::
  "externals \<Rightarrow> string \<Rightarrow> uint32_t \<Rightarrow> nat option \<Rightarrow> KisDatasource \<Rightarrow> KisDatasource" where
  "send_command_probe_interface X in_definition in_transaction in_cb s =
     (let definition_obj =
            KisDatasourceCapKeyedObject_new X ''DEFINITION'' (map byte_of_char in_definition);
          kvmap = map_emplace string_less ''DEFINITION'' definition_obj []
      in
      case write_packet X ''PROBEDEVICE'' kvmap s of
        Inl s \<Rightarrow>
          (case in_cb of
             None \<Rightarrow> s
           | Some cb \<Rightarrow>
               invoke (probe_callback cb in_transaction False ''unable to generate command frame'') s)
      | Inr (seqno, s) \<Rightarrow>
          (let cmd = (tracked_command_new in_transaction seqno)\<lparr> probe_cb := in_cb \<rparr>
           in s\<lparr> command_ack_map := map_assign uint32_less seqno cmd (command_ack_map s) \<rparr>))"

definition send_command_open_interface ::
  "externals \<Rightarrow> string \<Rightarrow> uint32_t \<Rightarrow> nat option \<Rightarrow> KisDatasource \<Rightarrow> KisDatasource" where
  "send_command_open_interface X in_definition in_transaction in_cb s =
     (let definition_obj =
            KisDatasourceCapKeyedObject_new X ''DEFINITION'' (map byte_of_char in_definition);
          kvmap = map_emplace string_less ''DEFINITION'' definition_obj []
      in
      case write_packet X ''OPENDEVICE'' kvmap s of
        Inl s \<Rightarrow>
          (case in_cb of
             None \<Rightarrow> s
           | Some cb \<Rightarrow>
               invoke (open_callback cb in_transaction False ''unable to generate command frame'') s)
      | Inr (seqno, s) \<Rightarrow>
          (let cmd = (tracked_command_new in_transaction seqno)\<lparr> open_cb := in_cb \<rparr>
           in s\<lparr> command_ack_map := map_assign uint32_less seqno cmd (command_ack_map s) \<rparr>))"

definition send_command_set_channel ::
  "externals \<Rightarrow> string \<Rightarrow> uint32_t \<Rightarrow> nat option \<Rightarrow> KisDatasource \<Rightarrow> KisDatasource" where
  "send_command_set_channel X in_channel in_transaction in_cb s =
     (let chanset = KisDatasourceCapKeyedObject_new X ''CHANSET'' (map byte_of_char in_channel);
          kvmap = map_emplace string_less ''CHANSET'' chanset []
      in
      case write_packet X ''CONFIGURE'' kvmap s of
        Inl s \<Rightarrow>
          (case in_cb of
             None \<Rightarrow> s
           | Some cb \<Rightarrow>
               invoke (configure_callback cb in_transaction False ''unable to generate command frame'') s)
      | Inr (seqno, s) \<Rightarrow>
          (let cmd = (tracked_command_new in_transaction seqno)\<lparr> configure_cb := in_cb \<rparr>
           in s\<lparr> command_ack_map := map_assign uint32_less seqno cmd (command_ack_map s) \<rparr>))"

definition send_command_set_channel_hop ::
  "externals \<Rightarrow> real \<Rightarrow> string list \<Rightarrow> uint32_t \<Rightarrow> nat option \<Rightarrow> KisDatasource \<Rightarrow> KisDatasource" where
  "send_command_set_channel_hop X in_rate in_chans in_transaction in_cb s =
     (let stream = msgpack_pack_chanhop X in_rate in_chans;
          chanhop = KisDatasourceCapKeyedObject_new X ''CHANHOP'' stream;
          kvmap = map_emplace string_less ''CHANHOP'' chanhop []
      in
      case write_packet X ''CONFIGURE'' kvmap s of
        Inl s \<Rightarrow>
          (case in_cb of
             None \<Rightarrow> s
           | Some cb \<Rightarrow>
               invoke (configure_callback cb in_transaction False ''unable to generate command frame'') s)
      | Inr (seqno, s) \<Rightarrow>
          (let cmd = (tracked_command_new in_transaction seqno)\<lparr> configure_cb := in_cb \<rparr>
           in s\<lparr> command_ack_map := map_assign uint32_less seqno cmd (command_ack_map s) \<rparr>))"

subsection \<open>The public operations\<close>

definition list_interfaces ::
  "externals \<Rightarrow> uint32_t \<Rightarrow> nat option \<Rightarrow> KisDatasource \<Rightarrow> KisDatasource" where
  "list_interfaces X in_transaction in_cb s =
     (if \<not> list_capable (source_builder s)
      then (case in_cb of
              None \<Rightarrow> s
            | Some cb \<Rightarrow> invoke (list_callback cb in_transaction []) s)
      else send_command_list_interfaces X in_transaction in_cb s)"

definition probe_interface ::
  "externals \<Rightarrow> string \<Rightarrow> uint32_t \<Rightarrow> nat option \<Rightarrow> KisDatasource \<Rightarrow> KisDatasource" where
  "probe_interface X in_definition in_transaction in_cb s =
     (if \<not> probe_capable (source_builder s)
      then (case in_cb of
              None \<Rightarrow> s
            | Some cb \<Rightarrow>
                invoke (probe_callback cb in_transaction False ''Driver not capable of probing'') s)
      else send_command_probe_interface X in_definition in_transaction in_cb s)"

definition open_interface ::
  "externals \<Rightarrow> string \<Rightarrow> uint32_t \<Rightarrow> nat option \<Rightarrow> KisDatasource \<Rightarrow> KisDatasource" where
  "open_interface X in_definition in_transaction in_cb s =
     (if \<not> local_capable (source_builder s)
      then (case in_cb of
              None \<Rightarrow> s
            | Some cb \<Rightarrow>
                invoke (open_callback cb in_transaction False
                          ''Driver does not support direct capture'') s)
      else
        (let s = (if error_timer_id s > 0
                  then s\<lparr> timetracker := RemoveTimer (error_timer_id s) (timetracker s) \<rparr>
                  else s)
         in case parse_interface_definition X in_definition s of
              (False, s) \<Rightarrow>
                (case in_cb of
                   None \<Rightarrow> s
                 | Some cb \<Rightarrow>
                     invoke (open_callback cb in_transaction False ''Malformed source config'') s)
            | (True, s) \<Rightarrow> send_command_open_interface X in_definition in_transaction in_cb s))"

definition set_channel ::
  "externals \<Rightarrow> string \<Rightarrow> uint32_t \<Rightarrow> nat option \<Rightarrow> KisDatasource \<Rightarrow> KisDatasource" where
  "set_channel X in_channel in_transaction in_cb s =
     (if \<not> tune_capable (source_builder s)
      then (case in_cb of
              None \<Rightarrow> s
            | Some cb \<Rightarrow>
                invoke (configure_callback cb in_transaction False
                          ''Driver not capable of changing channel'') s)
      else send_command_set_channel X in_channel in_transaction in_cb s)"

text \<open>
  \<^verbatim>\<open>set_channel_hop\<close> on a tracked vector of channels (\<^verbatim>\<open>SharedTrackerElement\<close>), and
  \<^verbatim>\<open>set_channel_hop\<close> on a \<^verbatim>\<open>std::vector<std::string>\<close>, which converts its channels to a
  tracked vector and calls the first. Both test the capability.
\<close>

definition set_channel_hop ::
  "externals \<Rightarrow> real \<Rightarrow> string list \<Rightarrow> uint32_t \<Rightarrow> nat option \<Rightarrow> KisDatasource \<Rightarrow> KisDatasource" where
  "set_channel_hop X in_rate in_chans in_transaction in_cb s =
     (if \<not> tune_capable (source_builder s)
      then (case in_cb of
              None \<Rightarrow> s
            | Some cb \<Rightarrow>
                invoke (configure_callback cb in_transaction False
                          ''Driver not capable of changing channel'') s)
      else send_command_set_channel_hop X in_rate in_chans in_transaction in_cb s)"

definition set_channel_hop_vector ::
  "externals \<Rightarrow> real \<Rightarrow> string list \<Rightarrow> uint32_t \<Rightarrow> nat option \<Rightarrow> KisDatasource \<Rightarrow> KisDatasource" where
  "set_channel_hop_vector X in_rate in_chans in_transaction in_cb s =
     (if \<not> tune_capable (source_builder s)
      then (case in_cb of
              None \<Rightarrow> s
            | Some cb \<Rightarrow>
                invoke (configure_callback cb in_transaction False
                          ''Driver not capable of changing channel'') s)
      else
        (let vec = foldl (\<lambda>vec i. vec @ [i]) [] in_chans
         in set_channel_hop X in_rate vec in_transaction in_cb s))"

definition set_channel_hop_rate ::
  "externals \<Rightarrow> real \<Rightarrow> uint32_t \<Rightarrow> nat option \<Rightarrow> KisDatasource \<Rightarrow> KisDatasource" where
  "set_channel_hop_rate X in_rate in_transaction in_cb s =
     set_channel_hop X in_rate (source_hop_vec s) in_transaction in_cb s"

definition set_channel_hop_list ::
  "externals \<Rightarrow> string list \<Rightarrow> uint32_t \<Rightarrow> nat option \<Rightarrow> KisDatasource \<Rightarrow> KisDatasource" where
  "set_channel_hop_list X in_chans in_transaction in_cb s =
     set_channel_hop_vector X (source_hop_rate s) in_chans in_transaction in_cb s"

subsection \<open>Retrying after an error\<close>

text \<open>
  \<^verbatim>\<open>handle_source_error\<close>: without the retry flag it does nothing (it logs); with it, it
  counts the failure, removes the timer of \<^verbatim>\<open>error_timer_id\<close> when that is positive, and
  registers a timer at \<^verbatim>\<open>SERVER_TIMESLICES_SEC * 5\<close> whose callback reopens the source.
\<close>

definition handle_source_error :: "externals \<Rightarrow> KisDatasource \<Rightarrow> KisDatasource" where
  "handle_source_error X s =
     (if \<not> source_retry s then s
      else
        (let s = s\<lparr> source_retry_attempts := source_retry_attempts s + 1 \<rparr>;
             s = (if error_timer_id s > 0
                  then s\<lparr> timetracker := RemoveTimer (error_timer_id s) (timetracker s) \<rparr>
                  else s);
             (id, tt) = RegisterTimer (SERVER_TIMESLICES_SEC X * 5) reopen_source (timetracker s)
         in s\<lparr> timetracker := tt, error_timer_id := id \<rparr>))"

text \<open>
  The callback of that timer:
  \<^verbatim>\<open>[this](int) -> int { open_interface(get_source_definition(), 0, NULL); return 0; }\<close>
\<close>

definition timer_callback_fires :: "externals \<Rightarrow> timer_callback \<Rightarrow> KisDatasource \<Rightarrow> KisDatasource" where
  "timer_callback_fires X cb s =
     (case cb of reopen_source \<Rightarrow> open_interface X (source_definition s) 0 None s)"

subsection \<open>The gps payload\<close>

text \<open>
  The body of the \<^verbatim>\<open>try\<close> block of \<^verbatim>\<open>handle_kv_gps\<close> after the dictionary is unpacked:
  nine tests \<^verbatim>\<open>if ((obj_iter = dict.find(k)) != dict.end())\<close>, each followed by one
  assignment. \<open>None\<close> is the exception of \<^verbatim>\<open>as<T>()\<close>. \<^verbatim>\<open>(time_t)\<close> is the conversion of a
  \<^verbatim>\<open>uint64_t\<close> to a signed 64-bit integer.
\<close>

definition time_t_of_uint64_t :: "nat \<Rightarrow> int" where
  "time_t_of_uint64_t n = (if n < 2 ^ 63 then int n else int n - 2 ^ 64)"

definition handle_kv_gps_dict ::
  "(string \<rightharpoonup> msgpack_object) \<Rightarrow> kis_gps_packinfo \<Rightarrow> kis_gps_packinfo option" where
  "handle_kv_gps_dict dict gpsinfo =
     do {
       gpsinfo \<leftarrow> (case dict ''lat'' of None \<Rightarrow> Some gpsinfo
                    | Some v \<Rightarrow> do { d \<leftarrow> as_double v; Some (gpsinfo\<lparr> lat := d \<rparr>) });
       gpsinfo \<leftarrow> (case dict ''lon'' of None \<Rightarrow> Some gpsinfo
                    | Some v \<Rightarrow> do { d \<leftarrow> as_double v; Some (gpsinfo\<lparr> lon := d \<rparr>) });
       gpsinfo \<leftarrow> (case dict ''alt'' of None \<Rightarrow> Some gpsinfo
                    | Some v \<Rightarrow> do { d \<leftarrow> as_double v; Some (gpsinfo\<lparr> alt := d \<rparr>) });
       gpsinfo \<leftarrow> (case dict ''speed'' of None \<Rightarrow> Some gpsinfo
                    | Some v \<Rightarrow> do { d \<leftarrow> as_double v; Some (gpsinfo\<lparr> speed := d \<rparr>) });
       gpsinfo \<leftarrow> (case dict ''heading'' of None \<Rightarrow> Some gpsinfo
                    | Some v \<Rightarrow> do { d \<leftarrow> as_double v; Some (gpsinfo\<lparr> heading := d \<rparr>) });
       gpsinfo \<leftarrow> (case dict ''precision'' of None \<Rightarrow> Some gpsinfo
                    | Some v \<Rightarrow> do { d \<leftarrow> as_double v; Some (gpsinfo\<lparr> precision := d \<rparr>) });
       gpsinfo \<leftarrow> (case dict ''fix'' of None \<Rightarrow> Some gpsinfo
                    | Some v \<Rightarrow> do { i \<leftarrow> as_int32_t v;
                                      Some (gpsinfo\<lparr> precision := real_of_int i \<rparr>) });
       gpsinfo \<leftarrow> (case dict ''time'' of None \<Rightarrow> Some gpsinfo
                    | Some v \<Rightarrow> do { n \<leftarrow> as_uint64_t v;
                                      Some (gpsinfo\<lparr> time := time_t_of_uint64_t n \<rparr>) });
       gpsinfo \<leftarrow> (case dict ''name'' of None \<Rightarrow> Some gpsinfo
                    | Some v \<Rightarrow> do { n \<leftarrow> as_string v; Some (gpsinfo\<lparr> gpsname := n \<rparr>) });
       Some gpsinfo
     }"

text \<open>
  \<^verbatim>\<open>handle_kv_gps\<close>: the record, or \<^verbatim>\<open>NULL\<close> (\<open>None\<close>) after the \<^verbatim>\<open>catch\<close> block has
  tripped the error path.
\<close>

definition handle_kv_gps_catch ::
  "string \<Rightarrow> KisDatasource \<Rightarrow> (kis_gps_packinfo option \<times> KisDatasource) option" where
  "handle_kv_gps_catch what s =
     do { s \<leftarrow> trigger_error (''failed to unpack gps bundle: '' @ what) s; Some (None, s) }"

definition handle_kv_gps ::
  "externals \<Rightarrow> KisDatasourceCapKeyedObject \<Rightarrow> KisDatasource
     \<Rightarrow> (kis_gps_packinfo option \<times> KisDatasource) option" where
  "handle_kv_gps X in_obj s =
     (let gpsinfo = kis_gps_packinfo_new X in
      case msgpack_unpack X (take (size_kv in_obj) (object in_obj)) of
        Inl what \<Rightarrow> handle_kv_gps_catch what s
      | Inr deserialized \<Rightarrow>
          (case as_MsgpackStrMap deserialized of
             None \<Rightarrow> handle_kv_gps_catch (type_error_what X) s
           | Some dict \<Rightarrow>
               (case handle_kv_gps_dict dict gpsinfo of
                  None \<Rightarrow> handle_kv_gps_catch (type_error_what X) s
                | Some gpsinfo \<Rightarrow> Some (Some gpsinfo, s))))"


subsection \<open>An instance of the outside world, for evaluation\<close>

text \<open>
  Modelled from the spec: \<^verbatim>\<open>Adler32Checksum\<close> (util.cc) is not under src/; the spec names
  the checksum Adler-32: two sums modulo 65521 over the bytes, the first starting at 1,
  the second in the upper half of the result.
\<close>

fun adler32_sums :: "nat \<Rightarrow> nat \<Rightarrow> byte list \<Rightarrow> uint32_t" where
  "adler32_sums a b [] = of_nat (b * 65536 + a)"
| "adler32_sums a b (x # xs) = adler32_sums ((a + unat x) mod 65521) ((b + (a + unat x) mod 65521) mod 65521) xs"

definition adler32 :: "byte list \<Rightarrow> uint32_t" where
  "adler32 bs = adler32_sums 1 0 bs"

text \<open>
  Modelled from the spec: the option parser \<^verbatim>\<open>StringToOpts\<close> (util.cc) is not under src/; the
  spec has a comma-separated list of \<^verbatim>\<open>key=value\<close> pairs, whitespace not stripped, and a
  syntactic failure rejected.
\<close>

fun split_on :: "char \<Rightarrow> string \<Rightarrow> string list" where
  "split_on c [] = [[]]"
| "split_on c (x # xs) =
     (if x = c then [] # split_on c xs
      else (case split_on c xs of [] \<Rightarrow> [[x]] | w # ws \<Rightarrow> (x # w) # ws))"

definition opt_pair_of :: "string \<Rightarrow> (string \<times> string) option" where
  "opt_pair_of str =
     (let epos = length (takeWhile (\<lambda>c. c \<noteq> CHR ''='') str)
      in if epos = length str then None else Some (take epos str, drop (epos + 1) str))"

definition example_StringToOpts :: "string \<Rightarrow> (string \<times> string) list option" where
  "example_StringToOpts str = (if str = [] then Some [] else those (map opt_pair_of (split_on CHR '','' str)))"

text \<open>
  Modelled from the spec: the class \<^verbatim>\<open>uuid\<close> is not under src/; the spec has a text
  parseable as a UUID. The instance accepts the 36-character form of five groups of
  hexadecimal digits and keeps its lowercased text.
\<close>

definition is_hex :: "char \<Rightarrow> bool" where
  "is_hex c = (c \<in> set ''0123456789abcdefABCDEF'')"

definition example_uuid_parse :: "string \<Rightarrow> uuid option" where
  "example_uuid_parse str =
     (if length str = 36
         \<and> map (\<lambda>i. str ! i) [8, 13, 18, 23] = ''----''
         \<and> list_all is_hex (take 8 str @ take 4 (drop 9 str) @ take 4 (drop 14 str)
                              @ take 4 (drop 19 str) @ drop 24 str)
      then Some (StrLower str) else None)"

text \<open>
  The payload codec of the instance knows two payloads: the msgpack bytes of the maps
  \<^verbatim>\<open>{"fix": 3}\<close> and \<^verbatim>\<open>{"precision": 1.5, "fix": 3}\<close>.
\<close>

definition gps_fix_bytes :: "byte list" where
  "gps_fix_bytes = [0x81, 0xA3, 0x66, 0x69, 0x78, 0x03]"

definition gps_precision_fix_bytes :: "byte list" where
  "gps_precision_fix_bytes =
     [0x82, 0xA9, 0x70, 0x72, 0x65, 0x63, 0x69, 0x73, 0x69, 0x6F, 0x6E,
      0xCB, 0x3F, 0xF8, 0x00, 0x00, 0x00, 0x00, 0x00, 0x00,
      0xA3, 0x66, 0x69, 0x78, 0x03]"

definition example_msgpack_unpack :: "byte list \<Rightarrow> string + msgpack_object" where
  "example_msgpack_unpack bs =
     (if bs = gps_fix_bytes then Inr (MMap [(''fix'', MInt 3)])
      else if bs = gps_precision_fix_bytes
      then Inr (MMap [(''precision'', MFloat 1.5), (''fix'', MInt 3)])
      else Inl ''insufficient bytes'')"

definition example_externals :: externals where
  "example_externals =
     \<lparr> KIS_CAP_SIMPLE_PROTO_SIG = 0xDECAFBAD,
       sizeof_simple_cap_proto_kv_h_t = 24,
       Adler32Checksum = adler32,
       WORDS_BIGENDIAN = True,
       uninitialised = (\<lambda>i. 0xCD),
       uninitialised_size = 0,
       msgpack_unpack = example_msgpack_unpack,
       type_error_what = ''std::bad_cast'',
       msgpack_pack_chanhop = (\<lambda>rate chans. []),
       uuid_parse = example_uuid_parse,
       StringToOpts = example_StringToOpts,
       StringToBool = (\<lambda>str dflt. if StrLower str = ''true'' then True
                                     else if StrLower str = ''false'' then False else dflt),
       SERVER_TIMESLICES_SEC = 10,
       kis_gps_packinfo_new =
         \<lparr> lat = 0, lon = 0, alt = 0, speed = 0, heading = 0, precision = 0, fix_gps = 0,
           time = 0, gpsname = [] \<rparr> \<rparr>"

text \<open>
  A controller as the constructor leaves it, bound to a transport with room for 64 KiB,
  with every capability.
\<close>

definition example_source :: KisDatasource where
  "example_source =
     \<lparr> source_builder = \<lparr> list_capable = True, probe_capable = True, local_capable = True,
                           tune_capable = True \<rparr>,
       ringbuf_handler = Some \<lparr> write_buffer = [], write_available = 65536, handler_calls = [] \<rparr>,
       timetracker = \<lparr> next_timer_id = 1, timers = [] \<rparr>,
       next_cmd_sequence = 7,
       error_timer_id = - 1,
       local_uuid = False,
       source_definition_opts = [],
       command_ack_map = [],
       source_name = [],
       source_uuid = [],
       source_definition = [],
       source_interface = [],
       source_channels_vec = [],
       source_channel = [],
       source_hop_rate = 0,
       source_hop_vec = [],
       source_error = False,
       source_error_reason = [],
       source_retry = False,
       source_retry_attempts = 0,
       callbacks = [] \<rparr>"


text \<open>
  A frame as the spec lays it out on the wire, as a peer builds it: a keyed object is its
  NUL-padded key, its size, and its bytes after a header of
  \<open>sizeof_simple_cap_proto_kv_h_t\<close> bytes; a frame is the envelope with the number of
  objects and the total length, the objects one after the other without padding, and the
  checksum of the whole with the checksum field zero.
\<close>

definition wire_kv :: "externals \<Rightarrow> string \<Rightarrow> byte list \<Rightarrow> byte list" where
  "wire_kv X k obj =
     take 16 (map byte_of_char k @ [0, 0, 0, 0, 0, 0, 0, 0, 0, 0, 0, 0, 0, 0, 0, 0])
     @ kis_hton32 (of_nat (length obj))
     @ map (\<lambda>i. 0) [20 ..< sizeof_simple_cap_proto_kv_h_t X]
     @ obj"

definition wire_frame :: "externals \<Rightarrow> string \<Rightarrow> uint32_t \<Rightarrow> byte list list \<Rightarrow> byte list" where
  "wire_frame X type_tag seq kvs =
     (let fr = kis_hton32 (KIS_CAP_SIMPLE_PROTO_SIG X)
               @ [0, 0, 0, 0]
               @ kis_hton32 seq
               @ take 16 (map byte_of_char type_tag @ [0, 0, 0, 0, 0, 0, 0, 0, 0, 0, 0, 0, 0, 0, 0, 0])
               @ kis_hton32 (of_nat (sizeof_simple_cap_proto_t + length (concat kvs)))
               @ kis_hton32 (of_nat (length kvs))
               @ concat kvs
      in store fr offsetof_checksum (kis_hton32 (Adler32Checksum X fr)))"

text \<open>
  The response \<^verbatim>\<open>OPENRESP\<close> to the command of sequence number 7 with three objects in this
  order: \<^verbatim>\<open>success\<close> (the flag 1 and the sequence number 7), \<^verbatim>\<open>chanset\<close> (the channel
  \<^verbatim>\<open>6\<close>) and \<^verbatim>\<open>uuid\<close>.
\<close>

definition openresp_frame :: "byte list" where
  "openresp_frame =
     wire_frame example_externals ''OPENRESP'' 1
       [wire_kv example_externals ''success'' [1, 0, 0, 0, 7],
        wire_kv example_externals ''chanset'' (map byte_of_char ''6''),
        wire_kv example_externals ''uuid''
          (map byte_of_char ''ffffffff-0000-0000-0000-000000000001'')]"

text \<open>
  The controller after \<^verbatim>\<open>open_interface("wlan0", 2, cb1)\<close>: one command is pending. The
  controller after \<^verbatim>\<open>set_channel("6", 3, cb2)\<close> on top of that: two commands are pending.
\<close>

definition one_pending :: KisDatasource where
  "one_pending = open_interface example_externals ''wlan0'' 2 (Some 1) example_source"

definition two_pending :: KisDatasource where
  "two_pending = set_channel example_externals ''6'' 3 (Some 2) one_pending"

text \<open>A controller whose builder has no capability.\<close>

definition incapable_source :: KisDatasource where
  "incapable_source =
     example_source\<lparr> source_builder :=
       \<lparr> list_capable = False, probe_capable = False, local_capable = False,
         tune_capable = False \<rparr> \<rparr>"

text \<open>The object \<^verbatim>\<open>uuid\<close> of a response, with a UUID that parses.\<close>

definition uuid_object :: KisDatasourceCapKeyedObject where
  "uuid_object =
     \<lparr> key = ''uuid'', size_kv = 36,
       object = map byte_of_char ''ffffffff-0000-0000-0000-000000000001'' \<rparr>"

text \<open>The object \<^verbatim>\<open>success\<close> of a response: the flag 1 and the sequence number 7.\<close>

definition success_object :: KisDatasourceCapKeyedObject where
  "success_object = \<lparr> key = ''success'', size_kv = 5, object = [1, 0, 0, 0, 7] \<rparr>"

text \<open>
  A valid frame with three objects of one, two and three bytes, laid out consecutively.
\<close>

definition abc_frame :: "byte list" where
  "abc_frame =
     wire_frame example_externals ''MESSAGE'' 1
       [wire_kv example_externals ''a'' [1],
        wire_kv example_externals ''b'' [2, 2],
        wire_kv example_externals ''c'' [3, 3, 3]]"



section \<open>Properties\<close>

subsection \<open>Stores, reads and byte order\<close>

lemma write_packet_loop1_fst: "fst (write_packet_loop1 X kvs (p, n)) = p"
  by (induction kvs arbitrary: n) simp_all

lemma write_packet_loop1_snd:
  "snd (write_packet_loop1 X kvs (p, n)) =
     n + (\<Sum>i\<leftarrow>kvs. sizeof_simple_cap_proto_kv_h_t X + size_kv (snd i))"
  by (induction kvs arbitrary: n) simp_all

lemma length_kis_hton32: "length (kis_hton32 w) = 4"
  by (simp add: kis_hton32_def)

lemma length_snprintf16: "length (snprintf16 str) \<le> 16"
  by (simp add: snprintf16_def)

lemma length_store: "off + length bs \<le> length buf \<Longrightarrow> length (store buf off bs) = length buf"
  by (simp add: store_def)

lemma read_store_same:
  "off + length bs \<le> length buf \<Longrightarrow> take (length bs) (drop off (store buf off bs)) = bs"
  by (simp add: store_def)

lemma read_store_after:
  "off + length bs \<le> p \<Longrightarrow> off + length bs \<le> length buf \<Longrightarrow> drop p (store buf off bs) = drop p buf"
  by (simp add: store_def)

lemma bytes_of_nat32:
  fixes n :: nat
  assumes "n < 4294967296"
  shows "((n div 16777216 mod 256 * 256 + n div 65536 mod 256) * 256 + n div 256 mod 256) * 256
           + n mod 256 = n"
proof -
  define a where "a = n div 256"
  define b where "b = a div 256"
  define c where "c = b div 256"
  have b: "n div 65536 = b" by (simp add: a_def b_def div_mult2_eq)
  have c: "n div 16777216 = c" by (simp add: a_def b_def c_def div_mult2_eq)
  have "c < 256" using assms unfolding c [symmetric] by simp
  then have "c mod 256 = c" by simp
  moreover have "c * 256 + b mod 256 = b" by (simp add: c_def)
  moreover have "b * 256 + a mod 256 = a" by (simp add: b_def)
  moreover have "a * 256 + n mod 256 = n" by (simp add: a_def)
  ultimately show ?thesis unfolding b c a_def [symmetric] by simp
qed

lemma kis_ntoh32_hton32: "kis_ntoh32 (kis_hton32 w) = w"
proof -
  have "unat w < 4294967296" using unsigned_less [of w, where ?'a = nat] by simp
  then show ?thesis
    using bytes_of_nat32 [of "unat w"]
    by (simp add: kis_ntoh32_def kis_hton32_def unat_of_nat)
qed


lemma read_store_before:
  "p + n \<le> off \<Longrightarrow> off + length bs \<le> length buf \<Longrightarrow>
     take n (drop p (store buf off bs)) = take n (drop p buf)"
proof -
  assume a: "p + n \<le> off" and b: "off + length bs \<le> length buf"
  have "take n (drop p (take off buf @ bs @ drop (off + length bs) buf))
          = take n (drop p (take off buf))"
    using a b by simp
  also have "\<dots> = take n (take (off - p) (drop p buf))"
    by (simp only: drop_take)
  also have "\<dots> = take n (drop p buf)"
    using a by (simp add: min_absorb1)
  finally show ?thesis by (simp only: store_def)
qed

lemma read_store_behind:
  "off + length bs \<le> p \<Longrightarrow> off + length bs \<le> length buf \<Longrightarrow>
     take n (drop p (store buf off bs)) = take n (drop p buf)"
  by (simp add: read_store_after)

lemma char_of_byte_of_char: "char_of_byte (byte_of_char c) = c"
  by (cases c) (simp add: char_of_byte_def byte_of_char_def bit_horner_sum_bit_word_iff)

lemma byte_of_char_eq_0: "byte_of_char c = 0 \<longleftrightarrow> c = CHR 0x00"
proof
  assume "byte_of_char c = 0"
  then have "char_of_byte (byte_of_char c) = char_of_byte 0" by simp
  then show "c = CHR 0x00" by (simp add: char_of_byte_of_char) (simp add: char_of_byte_def)
next
  assume "c = CHR 0x00"
  then show "byte_of_char c = 0" by (simp add: byte_of_char_def)
qed

lemma snprintf17_snprintf16:
  "snprintf17 (take 16 (snprintf16 str @ rest)) = take 15 (takeWhile (\<lambda>c. c \<noteq> CHR 0x00) str)"
proof -
  define cs where "cs = take 15 (takeWhile (\<lambda>c. c \<noteq> CHR 0x00) str)"
  have len: "length cs \<le> 15" by (simp add: cs_def)
  have nz: "\<And>b. b \<in> set (map byte_of_char cs) \<Longrightarrow> b \<noteq> 0"
  proof -
    fix b assume "b \<in> set (map byte_of_char cs)"
    then obtain c where c: "c \<in> set cs" "b = byte_of_char c" by auto
    from c(1) have "c \<in> set (takeWhile (\<lambda>c. c \<noteq> CHR 0x00) str)"
      unfolding cs_def by (rule in_set_takeD)
    then have "c \<noteq> CHR 0x00" by (rule set_takeWhileD [THEN conjunct2])
    then show "b \<noteq> 0" by (simp add: c(2) byte_of_char_eq_0)
  qed
  have t: "take 16 (snprintf16 str @ rest) = map byte_of_char cs @ 0 # take (15 - length cs) rest"
    using len by (simp add: snprintf16_def cs_def [symmetric] take_Cons' Suc_diff_le)
  have tt: "take 16 (take 16 (snprintf16 str @ rest))
              = map byte_of_char cs @ 0 # take (15 - length cs) rest"
    by (simp only: take_take min.idem) (rule t)
  have "takeWhile (\<lambda>b. b \<noteq> 0) (map byte_of_char cs @ 0 # take (15 - length cs) rest)
          = map byte_of_char cs @ takeWhile (\<lambda>b. b \<noteq> 0) (0 # take (15 - length cs) rest)"
    by (rule takeWhile_append2) (rule nz)
  then have tw: "takeWhile (\<lambda>b. b \<noteq> 0) (map byte_of_char cs @ 0 # take (15 - length cs) rest)
          = map byte_of_char cs"
    by simp
  show ?thesis
    unfolding snprintf17_def tt tw cs_def [symmetric]
    by (simp add: char_of_byte_of_char o_def)
qed

lemma read_store_len:
  "length bs = n \<Longrightarrow> off + n \<le> length buf \<Longrightarrow> take n (drop off (store buf off bs)) = bs"
  by (simp add: store_def)

lemma store_store_same:
  "length bs = length bs' \<Longrightarrow> off + length bs \<le> length buf \<Longrightarrow>
     store (store buf off bs) off bs' = store buf off bs'"
  by (simp add: store_def)

lemma store_read_same:
  "off + n \<le> length buf \<Longrightarrow> store buf off (take n (drop off buf)) = buf"
proof -
  assume a: "off + n \<le> length buf"
  have "take off buf @ take n (drop off buf) @ drop (off + n) buf = buf"
    by (metis append_take_drop_id drop_drop add.commute)
  then show ?thesis using a by (simp add: store_def min_absorb2)
qed

subsection \<open>The frame that write\_packet emits\<close>

text \<open>
  The buffer of \<^verbatim>\<open>write_packet\<close> before the checksum is stored, field by field: \<open>r\<close> is
  \<open>ret\<close> when \<^verbatim>\<open>Adler32Checksum\<close> reads it.
\<close>

lemma write_packet_frame_anatomy:
  fixes X in_cmd in_kvpairs seq
  defines "L \<equiv> (\<Sum>i\<leftarrow>in_kvpairs. sizeof_simple_cap_proto_kv_h_t X + size_kv (snd i))"
  shows "\<exists>r. write_packet_frame X in_cmd in_kvpairs seq = store r 4 (kis_hton32 (Adler32Checksum X r))
           \<and> length r = 36 + L
           \<and> take 4 r = kis_hton32 (KIS_CAP_SIMPLE_PROTO_SIG X)
           \<and> take 4 (drop 4 r) = [0, 0, 0, 0]
           \<and> (\<exists>rest. take 16 (drop 12 r) = take 16 (snprintf16 in_cmd @ rest))
           \<and> take 4 (drop 28 r) = kis_hton32 (of_nat (36 + L))
           \<and> take 4 (drop 32 r) = kis_hton32 0
           \<and> drop 36 r = map (uninitialised X) [36 ..< 36 + L]"
proof -
  define r0 where "r0 = map (uninitialised X) [0 ..< 36 + L]"
  define r1 where "r1 = store r0 0 (kis_hton32 (KIS_CAP_SIMPLE_PROTO_SIG X))"
  define r2 where "r2 = store r1 4 [0, 0, 0, 0]"
  define r3 where "r3 = store r2 8 (kis_hton32 seq)"
  define r4 where "r4 = store r3 28 (kis_hton32 (of_nat (36 + L)))"
  define r5 where "r5 = store r4 12 (snprintf16 in_cmd)"
  define r6 where "r6 = store r5 32 (kis_hton32 0)"
  have loop1: "write_packet_loop1 X in_kvpairs ([], 0) = ([], L)"
    using write_packet_loop1_fst [of X in_kvpairs "[]" 0]
      write_packet_loop1_snd [of X in_kvpairs "[]" 0]
    by (simp add: L_def prod_eq_iff)
  have frame: "write_packet_frame X in_cmd in_kvpairs seq
                 = store r6 4 (kis_hton32 (Adler32Checksum X r6))"
    by (simp add: write_packet_frame_def loop1 Let_def sizeof_simple_cap_proto_t_def
        offsetof_signature_def offsetof_checksum_def offsetof_sequence_number_def
        offsetof_packet_sz_def offsetof_type_def offsetof_num_kv_pairs_def
        r6_def r5_def r4_def r3_def r2_def r1_def r0_def)
  have n16: "length (snprintf16 in_cmd) \<le> 16" by (rule length_snprintf16)
  have l0: "length r0 = 36 + L" by (simp add: r0_def)
  have l1: "length r1 = 36 + L" by (simp add: r1_def length_store length_kis_hton32 l0)
  have l2: "length r2 = 36 + L" by (simp add: r2_def length_store l1)
  have l3: "length r3 = 36 + L" by (simp add: r3_def length_store length_kis_hton32 l2)
  have l4: "length r4 = 36 + L" by (simp add: r4_def length_store length_kis_hton32 l3)
  have l5: "length r5 = 36 + L" using n16 by (simp add: r5_def length_store l4)
  have l6: "length r6 = 36 + L" by (simp add: r6_def length_store length_kis_hton32 l5)
  have "take 4 (drop 0 r6) = take 4 (drop 0 r5)"
    unfolding r6_def by (rule read_store_before) (simp_all add: length_kis_hton32 l5)
  also have "\<dots> = take 4 (drop 0 r4)"
    unfolding r5_def by (rule read_store_before) (use n16 in \<open>simp_all add: l4\<close>)
  also have "\<dots> = take 4 (drop 0 r3)"
    unfolding r4_def by (rule read_store_before) (simp_all add: length_kis_hton32 l3)
  also have "\<dots> = take 4 (drop 0 r2)"
    unfolding r3_def by (rule read_store_before) (simp_all add: length_kis_hton32 l2)
  also have "\<dots> = take 4 (drop 0 r1)"
    unfolding r2_def by (rule read_store_before) (simp_all add: l1)
  also have "\<dots> = kis_hton32 (KIS_CAP_SIMPLE_PROTO_SIG X)"
    using read_store_same [of 0 "kis_hton32 (KIS_CAP_SIMPLE_PROTO_SIG X)" r0]
    by (simp add: r1_def length_kis_hton32 l0)
  finally have sig: "take 4 r6 = kis_hton32 (KIS_CAP_SIMPLE_PROTO_SIG X)" by simp
  have "take 4 (drop 4 r6) = take 4 (drop 4 r5)"
    unfolding r6_def by (rule read_store_before) (simp_all add: length_kis_hton32 l5)
  also have "\<dots> = take 4 (drop 4 r4)"
    unfolding r5_def by (rule read_store_before) (use n16 in \<open>simp_all add: l4\<close>)
  also have "\<dots> = take 4 (drop 4 r3)"
    unfolding r4_def by (rule read_store_before) (simp_all add: length_kis_hton32 l3)
  also have "\<dots> = take 4 (drop 4 r2)"
    unfolding r3_def by (rule read_store_before) (simp_all add: length_kis_hton32 l2)
  also have "\<dots> = [0, 0, 0, 0]"
    unfolding r2_def by (rule read_store_len) (simp_all add: l1)
  finally have zero: "take 4 (drop 4 r6) = [0, 0, 0, 0]" .
  have "take 16 (drop 12 r6) = take 16 (drop 12 r5)"
    unfolding r6_def by (rule read_store_before) (simp_all add: length_kis_hton32 l5)
  also have "\<dots> = take 16 (snprintf16 in_cmd @ drop (12 + length (snprintf16 in_cmd)) r4)"
    using l4 by (simp add: r5_def store_def)
  finally have type: "\<exists>rest. take 16 (drop 12 r6) = take 16 (snprintf16 in_cmd @ rest)" by blast
  have "take 4 (drop 28 r6) = take 4 (drop 28 r5)"
    by (simp add: r6_def read_store_before length_kis_hton32 l5)
  also have "\<dots> = take 4 (drop 28 r4)"
    using n16 by (simp add: r5_def read_store_behind l4)
  also have "\<dots> = kis_hton32 (of_nat (36 + L))"
    using read_store_same [of 28 "kis_hton32 (of_nat (36 + L))" r3]
    by (simp add: r4_def length_kis_hton32 l3)
  finally have sz: "take 4 (drop 28 r6) = kis_hton32 (of_nat (36 + L))" .
  have num_kv: "take 4 (drop 32 r6) = kis_hton32 0"
    using read_store_same [of 32 "kis_hton32 0" r5]
    by (simp add: r6_def length_kis_hton32 l5)
  have "drop 36 r6 = drop 36 r5"
    by (simp add: r6_def read_store_after length_kis_hton32 l5)
  also have "\<dots> = drop 36 r4"
    using n16 by (simp add: r5_def read_store_after l4)
  also have "\<dots> = drop 36 r3"
    by (simp add: r4_def read_store_after length_kis_hton32 l3)
  also have "\<dots> = drop 36 r2"
    by (simp add: r3_def read_store_after length_kis_hton32 l2)
  also have "\<dots> = drop 36 r1"
    by (simp add: r2_def read_store_after l1)
  also have "\<dots> = drop 36 r0"
    by (simp add: r1_def read_store_after length_kis_hton32 l0)
  also have "\<dots> = map (uninitialised X) [36 ..< 36 + L]"
    by (simp add: r0_def drop_map)
  finally have body: "drop 36 r6 = map (uninitialised X) [36 ..< 36 + L]" .
  show ?thesis
    using frame l6 sig zero type sz num_kv body by blast
qed


text \<open>
  \<^verbatim>\<open>write_packet\<close> on a controller bound to a transport: when the transport has room for
  \<open>pack_len\<close> bytes, the frame is appended to the write buffer, the sequence number is
  consumed, and the call returns \<^verbatim>\<open>true\<close> with the sequence number; otherwise the
  sequence number is consumed and the call returns \<^verbatim>\<open>false\<close>.
\<close>

lemma write_packet_pack_len_eq:
  "write_packet_pack_len X in_kvpairs =
     sizeof_simple_cap_proto_t
     + (\<Sum>i\<leftarrow>in_kvpairs. sizeof_simple_cap_proto_kv_h_t X + size_kv (snd i))"
  using write_packet_loop1_snd [of X in_kvpairs "[]" 0]
  by (simp add: write_packet_pack_len_def split_beta)

lemma length_write_packet_frame:
  "length (write_packet_frame X in_cmd in_kvpairs seq) = write_packet_pack_len X in_kvpairs"
proof -
  obtain r where
    "write_packet_frame X in_cmd in_kvpairs seq = store r 4 (kis_hton32 (Adler32Checksum X r))"
    "length r = 36 + (\<Sum>i\<leftarrow>in_kvpairs. sizeof_simple_cap_proto_kv_h_t X + size_kv (snd i))"
    using write_packet_frame_anatomy [of X in_cmd in_kvpairs seq] by blast
  then show ?thesis
    by (simp add: length_store length_kis_hton32 write_packet_pack_len_eq
        sizeof_simple_cap_proto_t_def)
qed

lemma write_packet_eq:
  "write_packet X in_cmd in_kvpairs s =
     (case ringbuf_handler s of
        None \<Rightarrow> Inl s
      | Some rb \<Rightarrow>
          if write_packet_pack_len X in_kvpairs \<le> write_available rb
          then Inr (kis_ntoh32_value (WORDS_BIGENDIAN X) (next_cmd_sequence s),
                    s\<lparr> next_cmd_sequence := next_cmd_sequence s + 1,
                        ringbuf_handler :=
                          Some (rb\<lparr> write_buffer :=
                                       write_buffer rb
                                       @ write_packet_frame X in_cmd in_kvpairs (next_cmd_sequence s),
                                     write_available :=
                                       write_available rb - write_packet_pack_len X in_kvpairs \<rparr>) \<rparr>)
          else Inl (s\<lparr> next_cmd_sequence := next_cmd_sequence s + 1,
                       ringbuf_handler := Some rb \<rparr>))"
proof -
  have "0 < write_packet_pack_len X in_kvpairs"
    by (simp add: write_packet_pack_len_eq sizeof_simple_cap_proto_t_def)
  then show ?thesis
    by (simp add: write_packet_def PutWriteBufferData_def Let_def length_write_packet_frame
        split: option.split)
qed

text \<open>
  C1. The claim: the frame that \<^verbatim>\<open>write_packet\<close> builds from a keyed-object map has
  \<^verbatim>\<open>num_kv\<close> equal to the number of entries, holds each keyed object (header, then
  \<^verbatim>\<open>obj_size\<close> bytes) in the iteration order of the map, and has a length field equal to
  the envelope size plus the sum of header size and object size over the entries.

  What the code does, for every command, map and sequence number: the \<^verbatim>\<open>num_kv\<close> field of
  the frame is 0, whatever the number of entries; the frame has the length the claim
  states and its length field is that length (as a 32-bit value); and all bytes after the
  envelope are the bytes the allocation held before, no keyed object is stored there.
  The first loop never appends to \<^verbatim>\<open>proto_kvpairs\<close>, so the second loop runs over an empty
  vector.
\<close>

theorem write_packet_frame_layout:
  "kis_ntoh32 (take 4 (drop offsetof_num_kv_pairs (write_packet_frame X in_cmd in_kvpairs seq))) = 0
   \<and> length (write_packet_frame X in_cmd in_kvpairs seq)
       = sizeof_simple_cap_proto_t
         + (\<Sum>i\<leftarrow>in_kvpairs. sizeof_simple_cap_proto_kv_h_t X + size_kv (snd i))
   \<and> kis_ntoh32 (take 4 (drop offsetof_packet_sz (write_packet_frame X in_cmd in_kvpairs seq)))
       = of_nat (sizeof_simple_cap_proto_t
                 + (\<Sum>i\<leftarrow>in_kvpairs. sizeof_simple_cap_proto_kv_h_t X + size_kv (snd i)))
   \<and> drop sizeof_simple_cap_proto_t (write_packet_frame X in_cmd in_kvpairs seq)
       = map (uninitialised X)
           [sizeof_simple_cap_proto_t ..<
              sizeof_simple_cap_proto_t
              + (\<Sum>i\<leftarrow>in_kvpairs. sizeof_simple_cap_proto_kv_h_t X + size_kv (snd i))]"
proof -
  define L where "L = (\<Sum>i\<leftarrow>in_kvpairs. sizeof_simple_cap_proto_kv_h_t X + size_kv (snd i))"
  obtain r where
    frame: "write_packet_frame X in_cmd in_kvpairs seq
              = store r 4 (kis_hton32 (Adler32Checksum X r))"
    and lr: "length r = 36 + L"
    and sz: "take 4 (drop 28 r) = kis_hton32 (of_nat (36 + L))"
    and num_kv: "take 4 (drop 32 r) = kis_hton32 0"
    and body: "drop 36 r = map (uninitialised X) [36 ..< 36 + L]"
    using write_packet_frame_anatomy [of X in_cmd in_kvpairs seq] unfolding L_def by blast
  define fr where "fr = store r 4 (kis_hton32 (Adler32Checksum X r))"
  have lf: "length fr = 36 + L" by (simp add: fr_def length_store length_kis_hton32 lr)
  have "take 4 (drop 32 fr) = take 4 (drop 32 r)"
    unfolding fr_def by (rule read_store_behind) (simp_all add: length_kis_hton32 lr)
  then have f_num_kv: "kis_ntoh32 (take 4 (drop 32 fr)) = 0"
    by (simp add: num_kv kis_ntoh32_hton32)
  have "take 4 (drop 28 fr) = take 4 (drop 28 r)"
    unfolding fr_def by (rule read_store_behind) (simp_all add: length_kis_hton32 lr)
  then have f_sz: "kis_ntoh32 (take 4 (drop 28 fr)) = of_nat (36 + L)"
    by (simp only: sz kis_ntoh32_hton32)
  have "drop 36 fr = drop 36 r"
    unfolding fr_def by (rule read_store_after) (simp_all add: length_kis_hton32 lr)
  then have f_body: "drop 36 fr = map (uninitialised X) [36 ..< 36 + L]"
    by (simp only: body)
  show ?thesis
    using f_num_kv f_sz f_body lf
    by (simp add: frame fr_def [symmetric] L_def sizeof_simple_cap_proto_t_def
        offsetof_num_kv_pairs_def offsetof_packet_sz_def)
qed

subsection \<open>Encoding, then decoding\<close>

text \<open>
  C2. The claim: encoding a type tag and a keyed-object map with \<^verbatim>\<open>write_packet\<close> and
  decoding the bytes with the frame decoder yields the same type tag and a map with the
  same entries (keys lowercased, values byte-equal).

  What the code does: for every map, empty or not, whose frame length fits 32 bits, the
  decoder of \<^verbatim>\<open>BufferAvailable\<close> accepts the frame that \<^verbatim>\<open>write_packet\<close> built (signature,
  length and checksum pass), and dispatches the type tag (its first 15 characters) with
  the empty map: every entry of the map is lost, because the frame says \<^verbatim>\<open>num_kv = 0\<close>.
\<close>

theorem write_packet_frame_BufferAvailable:
  assumes "sizeof_simple_cap_proto_t
           + (\<Sum>i\<leftarrow>in_kvpairs. sizeof_simple_cap_proto_kv_h_t X + size_kv (snd i)) < 2 ^ 32"
  shows "BufferAvailable X (write_packet_frame X in_cmd in_kvpairs seq)
         = Dispatched
             (sizeof_simple_cap_proto_t
              + (\<Sum>i\<leftarrow>in_kvpairs. sizeof_simple_cap_proto_kv_h_t X + size_kv (snd i)))
             (take 15 (takeWhile (\<lambda>c. c \<noteq> CHR 0x00) in_cmd))
             []"
proof -
  define L where "L = (\<Sum>i\<leftarrow>in_kvpairs. sizeof_simple_cap_proto_kv_h_t X + size_kv (snd i))"
  obtain r rest where
    frame: "write_packet_frame X in_cmd in_kvpairs seq
              = store r 4 (kis_hton32 (Adler32Checksum X r))"
    and lr: "length r = 36 + L"
    and sig: "take 4 r = kis_hton32 (KIS_CAP_SIMPLE_PROTO_SIG X)"
    and zero: "take 4 (drop 4 r) = [0, 0, 0, 0]"
    and type: "take 16 (drop 12 r) = take 16 (snprintf16 in_cmd @ rest)"
    and sz: "take 4 (drop 28 r) = kis_hton32 (of_nat (36 + L))"
    and num_kv: "take 4 (drop 32 r) = kis_hton32 0"
    using write_packet_frame_anatomy [of X in_cmd in_kvpairs seq] unfolding L_def by blast
  define fr where "fr = store r 4 (kis_hton32 (Adler32Checksum X r))"
  have lf: "length fr = 36 + L" by (simp add: fr_def length_store length_kis_hton32 lr)
  have "take 4 (drop 0 fr) = take 4 (drop 0 r)"
    unfolding fr_def by (rule read_store_before) (simp_all add: length_kis_hton32 lr)
  then have f_sig: "take 4 fr = kis_hton32 (KIS_CAP_SIMPLE_PROTO_SIG X)" by (simp add: sig)
  have "take 4 (drop 28 fr) = take 4 (drop 28 r)"
    unfolding fr_def by (rule read_store_behind) (simp_all add: length_kis_hton32 lr)
  then have f_sz: "take 4 (drop 28 fr) = kis_hton32 (of_nat (36 + L))" by (simp add: sz)
  have f_sum: "take 4 (drop 4 fr) = kis_hton32 (Adler32Checksum X r)"
    unfolding fr_def by (rule read_store_len) (simp_all add: length_kis_hton32 lr)
  have "store fr 4 [0, 0, 0, 0] = store r 4 [0, 0, 0, 0]"
    unfolding fr_def by (rule store_store_same) (simp_all add: length_kis_hton32 lr)
  also have "\<dots> = store r 4 (take 4 (drop 4 r))" by (simp only: zero)
  also have "\<dots> = r" by (rule store_read_same) (simp add: lr)
  finally have f_zeroed: "store fr 4 [0, 0, 0, 0] = r" .
  define N where "N = 36 + L"
  have "N < 2 ^ LENGTH(32)"
    using assms by (simp add: N_def L_def sizeof_simple_cap_proto_t_def)
  then have len32: "unat (of_nat N :: uint32_t) = N" by (simp only: unat_of_nat mod_less)
  have N36: "\<not> N < 36" by (simp add: N_def)
  have f_type: "snprintf17 (take 16 (drop 12 r)) = take 15 (takeWhile (\<lambda>c. c \<noteq> CHR 0x00) in_cmd)"
    by (simp only: type snprintf17_snprintf16)
  have "BufferAvailable X fr
          = Dispatched N (take 15 (takeWhile (\<lambda>c. c \<noteq> CHR 0x00) in_cmd)) []"
    by (simp add: BufferAvailable_def Let_def sizeof_simple_cap_proto_t_def
        offsetof_signature_def offsetof_checksum_def offsetof_packet_sz_def
        offsetof_type_def offsetof_num_kv_pairs_def
        lf [folded N_def] f_sig f_sz [folded N_def] f_sum f_zeroed kis_ntoh32_hton32 len32
        lr [folded N_def] N36 num_kv f_type)
  then show ?thesis
    by (simp add: frame fr_def N_def L_def sizeof_simple_cap_proto_t_def)
qed

text \<open>
  The frame of the command \<^verbatim>\<open>OPENDEVICE\<close> with the one object \<^verbatim>\<open>DEFINITION = "wlan0"\<close>
  decodes to \<^verbatim>\<open>OPENDEVICE\<close> with no object.
\<close>

theorem write_packet_frame_BufferAvailable_witness:
  "sizeof_simple_cap_proto_t
     + (\<Sum>i\<leftarrow>[(''DEFINITION'', \<lparr> key = ''DEFINITION'', size_kv = 5,
                                    object = map byte_of_char ''wlan0'' \<rparr>)].
          sizeof_simple_cap_proto_kv_h_t example_externals + size_kv (snd i)) < 2 ^ 32
   \<and> BufferAvailable example_externals
        (write_packet_frame example_externals ''OPENDEVICE''
           [(''DEFINITION'', \<lparr> key = ''DEFINITION'', size_kv = 5,
                                object = map byte_of_char ''wlan0'' \<rparr>)] 7)
      = Dispatched 65 ''OPENDEVICE'' []"
proof -
  have h: "sizeof_simple_cap_proto_t
     + (\<Sum>i\<leftarrow>[(''DEFINITION'', \<lparr> key = ''DEFINITION'', size_kv = 5,
                                    object = map byte_of_char ''wlan0'' \<rparr>)].
          sizeof_simple_cap_proto_kv_h_t example_externals + size_kv (snd i)) < 2 ^ 32"
    by (simp add: sizeof_simple_cap_proto_t_def example_externals_def)
  show ?thesis
    using h write_packet_frame_BufferAvailable [OF h, of "''OPENDEVICE''" 7]
    by (simp add: sizeof_simple_cap_proto_t_def example_externals_def)
qed


subsection \<open>The walk over the keyed objects of a frame\<close>

lemma extract_kv_pairs_numeral:
  "extract_kv_pairs X buf (numeral k) data_offt kv_map =
     (case KisDatasourceCapKeyedObject_of_kv X buf (sizeof_simple_cap_proto_t + data_offt) of
        None \<Rightarrow> None
      | Some kv \<Rightarrow>
          extract_kv_pairs X buf (pred_numeral k)
            (sizeof_simple_cap_proto_kv_h_t X + size_kv kv)
            (map_assign string_less (StrLower (key kv)) kv kv_map))"
  by (simp add: numeral_eq_Suc)

lemma openresp_frame_bytes:
  "openresp_frame =
   [222, 202, 251, 173, 224, 101, 22, 186, 0, 0, 0, 1, 79, 80, 69, 78, 82, 69,
  83, 80, 0, 0, 0, 0, 0, 0, 0, 0, 0, 0, 0, 150, 0, 0, 0, 3, 115, 117, 99,
  99, 101, 115, 115, 0, 0, 0, 0, 0, 0, 0, 0, 0, 0, 0, 0, 5, 0, 0, 0, 0, 1,
  0, 0, 0, 7, 99, 104, 97, 110, 115, 101, 116, 0, 0, 0, 0, 0, 0, 0, 0, 0, 0,
  0, 0, 1, 0, 0, 0, 0, 54, 117, 117, 105, 100, 0, 0, 0, 0, 0, 0, 0, 0, 0, 0,
  0, 0, 0, 0, 0, 36, 0, 0, 0, 0, 102, 102, 102, 102, 102, 102, 102, 102, 45,
  48, 48, 48, 48, 45, 48, 48, 48, 48, 45, 48, 48, 48, 48, 45, 48, 48, 48,
  48, 48, 48, 48, 48, 48, 48, 48, 49]"
  by (simp add: openresp_frame_def wire_frame_def wire_kv_def example_externals_def
      kis_hton32_def byte_of_char_def Let_def store_def adler32_def
      sizeof_simple_cap_proto_t_def offsetof_checksum_def)


text \<open>
  C3. The claim: for a valid frame whose body holds \<open>n\<close> keyed objects one after the
  other, the decoder of \<^verbatim>\<open>BufferAvailable\<close> reads object \<open>k\<close> at the offset that is the
  total size of the objects before it, and extracts its bytes under its lowercased key,
  for every \<open>k < n\<close>.

  What the code does on the valid \<^verbatim>\<open>OPENRESP\<close> frame with the three objects \<^verbatim>\<open>success\<close>
  (5 bytes), \<^verbatim>\<open>chanset\<close> (1 byte) and \<^verbatim>\<open>uuid\<close> (36 bytes): the loop assigns
  \<^verbatim>\<open>data_offt = sizeof(header) + obj_sz\<close> instead of adding to it, so the third object is
  read at offset 25, the size of the second object alone, and not at 54. That offset lies
  inside the first object: the decoder extracts an object with the empty key and no
  bytes, and never extracts \<^verbatim>\<open>uuid\<close>.
\<close>

theorem BufferAvailable_openresp_frame:
  "BufferAvailable example_externals openresp_frame =
     Dispatched 150 ''OPENRESP''
       [([], \<lparr> key = [], size_kv = 0, object = [] \<rparr>),
        (''chanset'', \<lparr> key = ''chanset'', size_kv = 1, object = map byte_of_char ''6'' \<rparr>),
        (''success'', \<lparr> key = ''success'', size_kv = 5, object = [1, 0, 0, 0, 7] \<rparr>)]"
  unfolding openresp_frame_bytes
  by (simp add: BufferAvailable_def example_externals_def Let_def store_def adler32_def
      sizeof_simple_cap_proto_t_def offsetof_checksum_def offsetof_signature_def
      offsetof_packet_sz_def offsetof_num_kv_pairs_def offsetof_type_def offsetof_obj_sz_def
      kis_ntoh32_def KisDatasourceCapKeyedObject_of_kv_def peek_def snprintf17_def
      char_of_byte_def byte_of_char_def StrLower_def tolower_c_def extract_kv_pairs_numeral)


text \<open>
  On the valid frame with objects of one, two and three bytes the same assignment makes
  the decoder read the third object at offset 26, inside the second: the size it finds
  there makes the constructor copy bytes beyond the end of the buffer.
\<close>

lemma abc_frame_bytes:
  "abc_frame =
   [222, 202, 251, 173, 161, 98, 7, 6, 0, 0, 0, 1, 77, 69, 83, 83, 65, 71, 69,
  0, 0, 0, 0, 0, 0, 0, 0, 0, 0, 0, 0, 114, 0, 0, 0, 3, 97, 0, 0, 0, 0, 0, 0,
  0, 0, 0, 0, 0, 0, 0, 0, 0, 0, 0, 0, 1, 0, 0, 0, 0, 1, 98, 0, 0, 0, 0, 0,
  0, 0, 0, 0, 0, 0, 0, 0, 0, 0, 0, 0, 0, 2, 0, 0, 0, 0, 2, 2, 99, 0, 0, 0,
  0, 0, 0, 0, 0, 0, 0, 0, 0, 0, 0, 0, 0, 0, 0, 3, 0, 0, 0, 0, 3, 3, 3]"
  by (simp add: abc_frame_def wire_frame_def wire_kv_def example_externals_def
      kis_hton32_def byte_of_char_def Let_def store_def adler32_def
      sizeof_simple_cap_proto_t_def offsetof_checksum_def)

lemma BufferAvailable_abc_frame: "BufferAvailable example_externals abc_frame = ReadOutsideBuffer"
  unfolding abc_frame_bytes
  by (simp add: BufferAvailable_def example_externals_def Let_def store_def adler32_def
      sizeof_simple_cap_proto_t_def offsetof_checksum_def offsetof_signature_def
      offsetof_packet_sz_def offsetof_num_kv_pairs_def offsetof_type_def offsetof_obj_sz_def
      kis_ntoh32_def KisDatasourceCapKeyedObject_of_kv_def peek_def snprintf17_def
      char_of_byte_def byte_of_char_def StrLower_def tolower_c_def extract_kv_pairs_numeral)

subsection \<open>Controllers with pending commands\<close>

lemmas example_defs =
  example_externals_def example_source_def open_interface_def set_channel_def
  parse_interface_definition_def find_colon_def send_command_open_interface_def
  send_command_set_channel_def KisDatasourceCapKeyedObject_new_def write_packet_eq
  write_packet_pack_len_eq tracked_command_new_def kis_ntoh32_value_def
  sizeof_simple_cap_proto_t_def Let_def uint32_less_def

lemma one_pending_registry:
  "command_ack_map one_pending =
     [(7, \<lparr> transaction = 2, command_seq = 7, list_cb = None, probe_cb = None,
             open_cb = Some 1, configure_cb = None, timer_id = - 1 \<rparr>)]"
  "callbacks one_pending = []"
  by (simp_all add: one_pending_def example_defs)

lemma two_pending_registry:
  "command_ack_map two_pending =
     [(7, \<lparr> transaction = 2, command_seq = 7, list_cb = None, probe_cb = None,
             open_cb = Some 1, configure_cb = None, timer_id = - 1 \<rparr>),
      (8, \<lparr> transaction = 3, command_seq = 8, list_cb = None, probe_cb = None,
             open_cb = None, configure_cb = Some 2, timer_id = - 1 \<rparr>)]"
  "callbacks two_pending = []"
  by (simp_all add: two_pending_def one_pending_def example_defs)

subsection \<open>Cancelling all commands\<close>

text \<open>
  The loop of \<^verbatim>\<open>cancel_all_commands\<close> returns only when it is not entered: an iterator that
  is not \<^verbatim>\<open>end()\<close> before the loop is not \<^verbatim>\<open>end()\<close> at any later test. After \<open>n\<close>
  iterations the loop is where it started, on the state \<open>cancel_command k\<close> applied \<open>n\<close>
  times.
\<close>

lemma cancel_all_commands_loop_returns:
  assumes "cancel_all_commands_loop i in_error s = Some s'"
  shows "i = None"
proof (rule cancel_all_commands_loop.raw_induct [where P = "\<lambda>i _ _ _. i = None", OF _ assms])
  fix loop :: "uint32_t option \<Rightarrow> string \<Rightarrow> KisDatasource \<Rightarrow> KisDatasource option"
    and i e s y
  assume IH: "\<And>i e s y. loop i e s = Some y \<Longrightarrow> i = None"
    and step: "(case i of None \<Rightarrow> Some s
                | Some first \<Rightarrow> loop i e (cancel_command first e s)) = Some y"
  show "i = None"
  proof (cases i)
    case None
    then show ?thesis .
  next
    case (Some k)
    with step have "loop i e (cancel_command k e s) = Some y" by simp
    then show ?thesis by (rule IH)
  qed
qed

lemma cancel_all_commands_loop_Some: "cancel_all_commands_loop (Some k) in_error s = None"
proof (cases "cancel_all_commands_loop (Some k) in_error s")
  case None
  then show ?thesis .
next
  case (Some s')
  then have "Some k = None" by (rule cancel_all_commands_loop_returns)
  then show ?thesis by simp
qed

lemma cancel_all_commands_loop_None: "cancel_all_commands_loop None in_error s = Some s"
  by (simp add: cancel_all_commands_loop.simps)


lemma cancel_all_commands_loop_funpow:
  "cancel_all_commands_loop (Some k) in_error s
     = cancel_all_commands_loop (Some k) in_error ((cancel_command k in_error ^^ n) s)"
proof (induction n arbitrary: s)
  case 0
  show ?case by simp
next
  case (Suc n)
  have "cancel_all_commands_loop (Some k) in_error s
          = cancel_all_commands_loop (Some k) in_error (cancel_command k in_error s)"
    by (subst cancel_all_commands_loop.simps) simp
  also have "\<dots> = cancel_all_commands_loop (Some k) in_error
                      ((cancel_command k in_error ^^ n) (cancel_command k in_error s))"
    by (rule Suc.IH)
  finally show ?case by (simp add: funpow_swap1)
qed

lemma trigger_error_eq:
  "trigger_error in_error s =
     (if command_ack_map s = [] then
        Some ((case ringbuf_handler s of
                 None \<Rightarrow> s
               | Some rb \<Rightarrow> s\<lparr> ringbuf_handler := Some (call_handler (ErrorHandler in_error) rb) \<rparr>)
              \<lparr> source_error := True, source_error_reason := in_error \<rparr>)
      else None)"
  by (cases "command_ack_map s")
    (simp_all add: trigger_error_def cancel_all_commands_def map_begin_def
      cancel_all_commands_loop_None cancel_all_commands_loop_Some)

lemma cancel_command_absent:
  "map_of (command_ack_map s) in_transaction = None \<Longrightarrow> cancel_command in_transaction in_error s = s"
  by (simp add: cancel_command_def)

lemma funpow_fixed: "f (f x) = f x \<Longrightarrow> (f ^^ Suc n) x = f x"
  by (induction n) simp_all

text \<open>
  C5. The claim: whenever \<^verbatim>\<open>source_error\<close> is true, every command that was pending has
  had its completion invoked with a failure and the registry is empty; \<^verbatim>\<open>trigger_error\<close>
  cancels all pending commands before it sets the flag, and \<^verbatim>\<open>cancel_all_commands\<close>
  terminates leaving the registry empty.

  What the code does: \<^verbatim>\<open>cancel_all_commands\<close> returns exactly when the registry is empty
  at the call, and then changes nothing. With one command or more in the registry it
  does not return: it cancels the first command and tests the same iterator again,
  without end. (So \<^verbatim>\<open>trigger_error\<close>, which calls it first, sets the flag only when no
  command was pending.)
\<close>

theorem cancel_all_commands_returns:
  "cancel_all_commands in_error s = (if command_ack_map s = [] then Some s else None)"
  by (cases "command_ack_map s")
    (simp_all add: cancel_all_commands_def map_begin_def
      cancel_all_commands_loop_None cancel_all_commands_loop_Some)

text \<open>
  On the controller with the one pending command of \<^verbatim>\<open>open_interface\<close>, neither
  \<^verbatim>\<open>cancel_all_commands\<close> nor \<^verbatim>\<open>trigger_error\<close> nor \<^verbatim>\<open>close_source\<close> returns.
\<close>

lemma one_pending_never_returns:
  "cancel_all_commands ''Closing source'' one_pending = None"
  "trigger_error ''Source got invalid control frame'' one_pending = None"
  "close_source one_pending = None"
proof -
  have a: "cancel_all_commands in_error one_pending = None" for in_error
    by (simp add: cancel_all_commands_def map_begin_def one_pending_registry
        cancel_all_commands_loop_Some)
  have b: "command_ack_map (one_pending\<lparr> timetracker := tt \<rparr>) \<noteq> []" for tt
    by (simp add: one_pending_registry)
  show "cancel_all_commands ''Closing source'' one_pending = None" by (rule a)
  show "trigger_error ''Source got invalid control frame'' one_pending = None"
    by (simp add: trigger_error_def a)
  show "close_source one_pending = None"
    using b
    by (simp add: close_source_def Let_def a cancel_all_commands_def map_begin_def
        cancel_all_commands_loop_Some one_pending_registry split: list.split)
qed

text \<open>
  C4. The claim: the completion of every registered command is invoked exactly once,
  whatever retires the command: a matching response, \<^verbatim>\<open>cancel_command\<close>, or the
  cancellation of all commands on a controller error.

  What the code does on a controller error with two commands pending (sequence numbers 7
  and 8, registered by \<^verbatim>\<open>open_interface\<close> and \<^verbatim>\<open>set_channel\<close>): \<^verbatim>\<open>trigger_error\<close> enters the
  loop of \<^verbatim>\<open>cancel_all_commands\<close> with the iterator at command 7 and never returns; after
  every number of iterations of the loop the only completion invoked is that of command
  7, once, and command 8 is still in the registry: its completion is invoked zero times.
\<close>

theorem two_pending_trigger_error:
  "trigger_error ''Source got invalid control frame'' two_pending = None
   \<and> cancel_all_commands ''Source got invalid control frame'' two_pending
       = cancel_all_commands_loop (Some 7) ''Source got invalid control frame'' two_pending
   \<and> (\<forall>n. callbacks ((cancel_command 7 ''Source got invalid control frame'' ^^ Suc n) two_pending)
            = [open_callback 1 2 False ''Source got invalid control frame'']
          \<and> command_ack_map
               ((cancel_command 7 ''Source got invalid control frame'' ^^ Suc n) two_pending)
            = [(8, \<lparr> transaction = 3, command_seq = 8, list_cb = None, probe_cb = None,
                      open_cb = None, configure_cb = Some 2, timer_id = - 1 \<rparr>)])"
proof -
  define e where "e = ''Source got invalid control frame''"
  define s1 where "s1 = cancel_command 7 e two_pending"
  have cb: "callbacks s1 = [open_callback 1 2 False e]"
    by (simp add: s1_def cancel_command_def two_pending_registry invoke_def Let_def)
  have reg: "command_ack_map s1
              = [(8, \<lparr> transaction = 3, command_seq = 8, list_cb = None, probe_cb = None,
                        open_cb = None, configure_cb = Some 2, timer_id = - 1 \<rparr>)]"
    by (simp add: s1_def cancel_command_def two_pending_registry invoke_def Let_def
        map_erase_def)
  have "cancel_command 7 e s1 = s1"
    by (rule cancel_command_absent) (simp add: reg)
  then have fixed: "\<And>n. (cancel_command 7 e ^^ Suc n) two_pending = s1"
    unfolding s1_def by (rule funpow_fixed)
  have "trigger_error e two_pending = None"
    by (simp add: trigger_error_eq two_pending_registry)
  moreover have "cancel_all_commands e two_pending
                   = cancel_all_commands_loop (Some 7) e two_pending"
    by (simp add: cancel_all_commands_def map_begin_def two_pending_registry)
  ultimately show ?thesis
    unfolding e_def [symmetric] by (simp only: fixed cb reg) simp
qed

text \<open>
  The other ways a command is retired, on the controller with the one pending command of
  \<^verbatim>\<open>open_interface\<close> (sequence number 7, transaction 2, callback 1):
  \<^item> \<^verbatim>\<open>cancel_command\<close> invokes the callback once, with the failure, and erases the command;
  \<^item> an \<^verbatim>\<open>openresp\<close> frame with the \<^verbatim>\<open>success\<close> object of sequence number 7 invokes the
    callback once and erases the command;
  \<^item> a \<^verbatim>\<open>configresp\<close> frame with the same \<^verbatim>\<open>success\<close> object erases the command and
    invokes nothing: the handler tests \<^verbatim>\<open>configure_cb\<close>, which an open command does not
    have, and erases the command all the same.
\<close>

lemma success_object_value:
  "get_kv_success success_object s = Some (True, s)"
  "get_kv_success_sequence success_object s = Some (7, s)"
  by (simp_all add: get_kv_success_def get_kv_success_sequence_def success_object_def
      sizeof_simple_cap_proto_success_value_def kis_ntoh32_def)

lemma openresp_retires_open_command:
  "proto_packet_open_resp X [(''success'', success_object)] one_pending
     = Some (one_pending\<lparr> callbacks := [open_callback 1 7 True []], command_ack_map := [] \<rparr>)"
  by (simp add: proto_packet_open_resp_def success_object_value one_pending_registry
      invoke_def map_erase_def)

lemma configresp_retires_open_command:
  "proto_packet_configresp X [(''success'', success_object)] one_pending
     = Some (one_pending\<lparr> command_ack_map := [] \<rparr>)"
  by (simp add: proto_packet_configresp_def success_object_value one_pending_registry
      invoke_def map_erase_def)

lemma cancel_command_one_pending:
  "cancel_command 7 in_error one_pending
     = one_pending\<lparr> callbacks := [open_callback 1 2 False in_error], command_ack_map := [] \<rparr>"
  by (simp add: cancel_command_def one_pending_registry invoke_def map_erase_def Let_def)

subsection \<open>The error path and the reopen timer\<close>

text \<open>
  C6. The claim: with the retry flag enabled, every \<^verbatim>\<open>trigger_error\<close> schedules exactly
  one reopen timer at 5 seconds, which calls \<^verbatim>\<open>open_interface\<close> with the source definition
  and increments \<^verbatim>\<open>retry_attempts\<close>; an explicit \<^verbatim>\<open>open_interface\<close> before it fires
  cancels it.

  What the code does: \<^verbatim>\<open>trigger_error\<close> does not call \<^verbatim>\<open>handle_source_error\<close>, and nothing
  else in the source does. Whatever the retry flag, when \<^verbatim>\<open>trigger_error\<close> returns the
  timers, \<^verbatim>\<open>error_timer_id\<close> and \<^verbatim>\<open>retry_attempts\<close> are what they were: no reopen is
  scheduled and no failure is counted.
\<close>

theorem trigger_error_schedules_nothing:
  "map_option timetracker (trigger_error in_error s)
     = (if command_ack_map s = [] then Some (timetracker s) else None)
   \<and> map_option error_timer_id (trigger_error in_error s)
     = (if command_ack_map s = [] then Some (error_timer_id s) else None)
   \<and> map_option source_retry_attempts (trigger_error in_error s)
     = (if command_ack_map s = [] then Some (source_retry_attempts s) else None)"
  by (simp add: trigger_error_eq split: option.split)

text \<open>
  The function that would schedule the reopen, \<^verbatim>\<open>handle_source_error\<close>, does what the
  claim describes when it is called with the retry flag set: one more failure, the timer
  of a positive \<^verbatim>\<open>error_timer_id\<close> removed, one timer registered at
  \<^verbatim>\<open>SERVER_TIMESLICES_SEC * 5\<close>.
\<close>

lemma handle_source_error_retry:
  "source_retry s \<Longrightarrow>
     handle_source_error X s =
       s\<lparr> source_retry_attempts := source_retry_attempts s + 1,
           timetracker :=
             \<lparr> next_timer_id = next_timer_id (timetracker s) + 1,
               timers = (if error_timer_id s > 0
                         then filter (\<lambda>t. fst t \<noteq> error_timer_id s) (timers (timetracker s))
                         else timers (timetracker s))
                        @ [(next_timer_id (timetracker s), SERVER_TIMESLICES_SEC X * 5, reopen_source)] \<rparr>,
           error_timer_id := next_timer_id (timetracker s) \<rparr>"
  by (simp add: handle_source_error_def RegisterTimer_def RemoveTimer_def Let_def)

text \<open>
  \<^verbatim>\<open>open_interface\<close> on a local-capable controller removes the timer of a positive
  \<^verbatim>\<open>error_timer_id\<close>, and registers none. It does not assign \<^verbatim>\<open>source_definition\<close>, the
  member that the callback of the reopen timer reads.
\<close>

lemma parse_interface_definition_timetracker:
  "timetracker (snd (parse_interface_definition X in_definition s)) = timetracker s"
  by (simp add: parse_interface_definition_def Let_def split: option.split)

lemma send_command_open_interface_timetracker:
  "timetracker (send_command_open_interface X in_definition in_transaction in_cb s) = timetracker s"
  by (simp add: send_command_open_interface_def write_packet_eq invoke_def Let_def
      split: option.split)

lemma parse_interface_definition_source_definition:
  "source_definition (snd (parse_interface_definition X in_definition s)) = source_definition s"
  by (simp add: parse_interface_definition_def Let_def split: option.split)

lemma send_command_open_interface_source_definition:
  "source_definition (send_command_open_interface X in_definition in_transaction in_cb s)
     = source_definition s"
  by (simp add: send_command_open_interface_def write_packet_eq invoke_def Let_def
      split: option.split)

lemma open_interface_source_definition:
  "source_definition (open_interface X in_definition in_transaction in_cb s) = source_definition s"
proof -
  define s1 where "s1 = (if error_timer_id s > 0
                         then s\<lparr> timetracker := RemoveTimer (error_timer_id s) (timetracker s) \<rparr>
                         else s)"
  have s1: "source_definition s1 = source_definition s" by (simp add: s1_def)
  show ?thesis
    using parse_interface_definition_source_definition [of X in_definition s1]
    by (cases "parse_interface_definition X in_definition s1")
      (auto simp add: open_interface_def s1_def [symmetric] s1 Let_def invoke_def
        send_command_open_interface_source_definition split: option.split bool.split)
qed

lemma open_interface_removes_timer:
  assumes "local_capable (source_builder s)" and "0 < error_timer_id s"
  shows "timers (timetracker (open_interface X in_definition in_transaction in_cb s))
           = filter (\<lambda>t. fst t \<noteq> error_timer_id s) (timers (timetracker s))"
proof -
  define s1 where "s1 = s\<lparr> timetracker := RemoveTimer (error_timer_id s) (timetracker s) \<rparr>"
  have "timetracker (open_interface X in_definition in_transaction in_cb s) = timetracker s1"
    using assms parse_interface_definition_timetracker [of X in_definition s1]
    by (cases "parse_interface_definition X in_definition s1")
      (auto simp add: open_interface_def s1_def [symmetric] Let_def invoke_def
        send_command_open_interface_timetracker split: option.split bool.split)
  then show ?thesis by (simp add: s1_def RemoveTimer_def)
qed

subsection \<open>Capability gates\<close>

text \<open>
  C7. The claim: each public operation (\<^verbatim>\<open>list_interfaces\<close>, \<^verbatim>\<open>probe_interface\<close>,
  \<^verbatim>\<open>open_interface\<close>, \<^verbatim>\<open>set_channel\<close>, \<^verbatim>\<open>set_channel_hop\<close>), called on a controller whose
  builder lacks the capability, invokes the caller's completion synchronously with a
  failure (the empty list for list, false and a reason for the others), emits no bytes
  and leaves the state of the controller unchanged.

  Proved: without the capability, the controller after the call is the controller before
  it with one more callback invocation, the failure; every other member, the transport
  with its write buffer and the registry included, is unchanged. With no callback
  (\<^verbatim>\<open>NULL\<close>) the controller is unchanged.
\<close>

theorem capability_gates:
  "(\<not> list_capable (source_builder s) \<longrightarrow>
      list_interfaces X in_transaction (Some cb) s
        = s\<lparr> callbacks := callbacks s @ [list_callback cb in_transaction []] \<rparr>
      \<and> list_interfaces X in_transaction None s = s)
   \<and> (\<not> probe_capable (source_builder s) \<longrightarrow>
      probe_interface X in_definition in_transaction (Some cb) s
        = s\<lparr> callbacks := callbacks s
               @ [probe_callback cb in_transaction False ''Driver not capable of probing''] \<rparr>
      \<and> probe_interface X in_definition in_transaction None s = s)
   \<and> (\<not> local_capable (source_builder s) \<longrightarrow>
      open_interface X in_definition in_transaction (Some cb) s
        = s\<lparr> callbacks := callbacks s
               @ [open_callback cb in_transaction False
                    ''Driver does not support direct capture''] \<rparr>
      \<and> open_interface X in_definition in_transaction None s = s)
   \<and> (\<not> tune_capable (source_builder s) \<longrightarrow>
      set_channel X in_channel in_transaction (Some cb) s
        = s\<lparr> callbacks := callbacks s
               @ [configure_callback cb in_transaction False
                    ''Driver not capable of changing channel''] \<rparr>
      \<and> set_channel X in_channel in_transaction None s = s
      \<and> set_channel_hop X in_rate in_chans in_transaction (Some cb) s
        = s\<lparr> callbacks := callbacks s
               @ [configure_callback cb in_transaction False
                    ''Driver not capable of changing channel''] \<rparr>
      \<and> set_channel_hop X in_rate in_chans in_transaction None s = s
      \<and> set_channel_hop_vector X in_rate in_chans in_transaction (Some cb) s
        = s\<lparr> callbacks := callbacks s
               @ [configure_callback cb in_transaction False
                    ''Driver not capable of changing channel''] \<rparr>
      \<and> set_channel_hop_vector X in_rate in_chans in_transaction None s = s)"
  by (simp add: list_interfaces_def probe_interface_def open_interface_def set_channel_def
      set_channel_hop_def set_channel_hop_vector_def invoke_def)

theorem capability_gates_witness:
  "\<not> list_capable (source_builder incapable_source)
   \<and> \<not> probe_capable (source_builder incapable_source)
   \<and> \<not> local_capable (source_builder incapable_source)
   \<and> \<not> tune_capable (source_builder incapable_source)
   \<and> list_interfaces example_externals 7 (Some 1) incapable_source
       = incapable_source\<lparr> callbacks := [list_callback 1 7 []] \<rparr>
   \<and> probe_interface example_externals ''wlan0'' 7 (Some 1) incapable_source
       = incapable_source\<lparr> callbacks := [probe_callback 1 7 False ''Driver not capable of probing''] \<rparr>
   \<and> open_interface example_externals ''wlan0'' 7 (Some 1) incapable_source
       = incapable_source\<lparr> callbacks :=
           [open_callback 1 7 False ''Driver does not support direct capture''] \<rparr>
   \<and> set_channel example_externals ''6'' 7 (Some 1) incapable_source
       = incapable_source\<lparr> callbacks :=
           [configure_callback 1 7 False ''Driver not capable of changing channel''] \<rparr>
   \<and> set_channel_hop_vector example_externals 5 [''1'', ''6'', ''11''] 7 (Some 1) incapable_source
       = incapable_source\<lparr> callbacks :=
           [configure_callback 1 7 False ''Driver not capable of changing channel''] \<rparr>
   \<and> ringbuf_handler (set_channel_hop_vector example_externals 5 [''1'', ''6'', ''11''] 7 (Some 1)
                         incapable_source)
       = Some \<lparr> write_buffer = [], write_available = 65536, handler_calls = [] \<rparr>"
proof -
  have caps: "\<not> list_capable (source_builder incapable_source)"
    "\<not> probe_capable (source_builder incapable_source)"
    "\<not> local_capable (source_builder incapable_source)"
    "\<not> tune_capable (source_builder incapable_source)"
    by (simp_all add: incapable_source_def)
  have cbs: "callbacks incapable_source = []"
    by (simp add: incapable_source_def example_source_def)
  have rb: "ringbuf_handler incapable_source
              = Some \<lparr> write_buffer = [], write_available = 65536, handler_calls = [] \<rparr>"
    by (simp add: incapable_source_def example_source_def)
  show ?thesis
    using caps
      capability_gates [of incapable_source example_externals 7 1 "''wlan0''" "''6''" 5
        "[''1'', ''6'', ''11'']"]
    by (simp add: cbs rb)
qed

subsection \<open>The UUID of the source\<close>

lemmas example_parse_defs =
  parse_interface_definition_def find_colon_def example_externals_def example_source_def
  example_StringToOpts_def opt_pair_of_def example_uuid_parse_def is_hex_def StrLower_def
  tolower_c_def byte_of_char_def char_of_byte_def Let_def

lemmas example_send_defs =
  open_interface_def send_command_open_interface_def KisDatasourceCapKeyedObject_new_def
  write_packet_eq write_packet_pack_len_eq tracked_command_new_def kis_ntoh32_value_def
  sizeof_simple_cap_proto_t_def uint32_less_def

text \<open>
  While \<^verbatim>\<open>local_uuid\<close> is set, a received \<^verbatim>\<open>uuid\<close> object leaves the UUID of the source
  unchanged; while it is not set, a received UUID that parses is adopted. After a
  successful parse the flag is set exactly when the definition has options and
  \<^verbatim>\<open>source_definition_opts\<close>, with the options of all definitions parsed so far, has a
  \<^verbatim>\<open>uuid\<close> entry.
\<close>

lemma trigger_error_source_uuid:
  "trigger_error in_error s = Some s' \<Longrightarrow> source_uuid s' = source_uuid s"
  by (auto simp add: trigger_error_eq split: if_splits option.splits)

lemma handle_kv_uuid_local:
  "local_uuid s \<Longrightarrow> handle_kv_uuid X in_obj s = Some s' \<Longrightarrow> source_uuid s' = source_uuid s"
  by (auto simp add: handle_kv_uuid_def dest: trigger_error_source_uuid split: option.splits)

lemma handle_kv_uuid_adopts:
  "\<not> local_uuid s \<Longrightarrow>
     uuid_parse X (map char_of_byte (take (size_kv in_obj) (object in_obj))) = Some u \<Longrightarrow>
     handle_kv_uuid X in_obj s = Some (s\<lparr> source_uuid := u \<rparr>)"
  by (simp add: handle_kv_uuid_def)

lemma parse_interface_definition_local_uuid:
  "parse_interface_definition X in_definition s = (True, s') \<Longrightarrow>
     local_uuid s' \<longleftrightarrow>
       find_colon in_definition \<noteq> None \<and> map_of (source_definition_opts s') ''uuid'' \<noteq> None"
  by (auto simp add: parse_interface_definition_def Let_def split: option.splits)

text \<open>
  C8. The claim: if the most recently parsed source definition carried a valid \<^verbatim>\<open>uuid\<close>
  option, a received \<^verbatim>\<open>uuid\<close> object leaves the source UUID unchanged; if it carried none,
  a received \<^verbatim>\<open>uuid\<close> object that parses is adopted.

  What the code does: \<^verbatim>\<open>parse_interface_definition\<close> looks the option up in the member
  \<^verbatim>\<open>source_definition_opts\<close>, which keeps the options of earlier definitions. After the
  definition \<^verbatim>\<open>wlan0:uuid=00000000-0000-0000-0000-000000000001\<close>, the definition
  \<^verbatim>\<open>wlan0:name=mon\<close> (whose option list has no \<^verbatim>\<open>uuid\<close>) parses, and the UUID of a
  received \<^verbatim>\<open>uuid\<close> object is not adopted: the source keeps the UUID of the earlier
  definition. On a controller that parsed no definition before, the same definition and
  the same object adopt the received UUID.
\<close>

theorem stale_uuid_option_parse:
  "StringToOpts example_externals ''name=mon'' = Some [(''name'', ''mon'')]
   \<and> fst (parse_interface_definition example_externals ''wlan0:name=mon''
            (snd (parse_interface_definition example_externals
                    ''wlan0:uuid=00000000-0000-0000-0000-000000000001'' example_source)))
   \<and> map_option source_uuid
        (handle_kv_uuid example_externals uuid_object
           (snd (parse_interface_definition example_externals ''wlan0:name=mon''
                   (snd (parse_interface_definition example_externals
                           ''wlan0:uuid=00000000-0000-0000-0000-000000000001'' example_source)))))
       = Some ''00000000-0000-0000-0000-000000000001''
   \<and> map_option source_uuid
        (handle_kv_uuid example_externals uuid_object
           (snd (parse_interface_definition example_externals ''wlan0:name=mon'' example_source)))
       = Some ''ffffffff-0000-0000-0000-000000000001''"
  by (simp add: example_parse_defs handle_kv_uuid_def uuid_object_def string_less.simps)


text \<open>
  C10. The claim: every \<^verbatim>\<open>parse_interface_definition\<close> first resets the flag
  \<^verbatim>\<open>local_uuid\<close>; consequently, if the most recently parsed definition lacks a \<^verbatim>\<open>uuid\<close>
  option, a later \<^verbatim>\<open>uuid\<close> object is adopted even when an earlier open had supplied a
  local UUID.

  What the code does: the flag is reset first (the result of the parse does not depend
  on the flag before it). The consequence fails: after \<^verbatim>\<open>open_interface\<close> with
  \<^verbatim>\<open>wlan0:uuid=00000000-0000-0000-0000-000000000001\<close> and then \<^verbatim>\<open>open_interface\<close> with
  \<^verbatim>\<open>wlan0:name=mon\<close>, the flag is true again, set from the option that
  \<^verbatim>\<open>source_definition_opts\<close> kept, and a received \<^verbatim>\<open>uuid\<close> object is not adopted.
\<close>

theorem stale_uuid_option_open_interface:
  "parse_interface_definition X in_definition (s\<lparr> local_uuid := b \<rparr>)
     = parse_interface_definition X in_definition s
   \<and> local_uuid
        (open_interface example_externals ''wlan0:name=mon'' 3 (Some 1)
           (open_interface example_externals
              ''wlan0:uuid=00000000-0000-0000-0000-000000000001'' 2 (Some 1) example_source))
   \<and> map_option source_uuid
        (handle_kv_uuid example_externals uuid_object
           (open_interface example_externals ''wlan0:name=mon'' 3 (Some 1)
              (open_interface example_externals
                 ''wlan0:uuid=00000000-0000-0000-0000-000000000001'' 2 (Some 1) example_source)))
       = Some ''00000000-0000-0000-0000-000000000001''"
proof -
  have reset: "parse_interface_definition X in_definition (s\<lparr> local_uuid := b \<rparr>)
                 = parse_interface_definition X in_definition s"
    by (simp add: parse_interface_definition_def)
  show ?thesis
    by (simp add: reset)
      (simp add: example_send_defs example_parse_defs handle_kv_uuid_def uuid_object_def
        string_less.simps)
qed

subsection \<open>The gps payload\<close>

text \<open>
  C9. The claim: each field present in the decoded \<^verbatim>\<open>gps\<close> map is stored into the field
  of the same name of the GPS record, absent fields keep their defaults; a present \<^verbatim>\<open>fix\<close>
  is stored as the fix of the record, and the precision of the record is the decoded
  \<^verbatim>\<open>precision\<close> exactly when \<^verbatim>\<open>precision\<close> is present.

  What the code does: the value of \<^verbatim>\<open>fix\<close> is assigned to \<^verbatim>\<open>precision\<close>. For the payload
  \<^verbatim>\<open>{"fix": 3}\<close> the record has precision 3 and its fix is the default; for
  \<^verbatim>\<open>{"precision": 1.5, "fix": 3}\<close> the record has precision 3, not 1.5.
\<close>

theorem handle_kv_gps_fix:
  "handle_kv_gps example_externals \<lparr> key = ''gps'', size_kv = 6, object = gps_fix_bytes \<rparr>
     example_source
     = Some (Some \<lparr> lat = 0, lon = 0, alt = 0, speed = 0, heading = 0, precision = 3,
                     fix_gps = 0, time = 0, gpsname = [] \<rparr>, example_source)
   \<and> handle_kv_gps example_externals
       \<lparr> key = ''gps'', size_kv = 25, object = gps_precision_fix_bytes \<rparr> example_source
     = Some (Some \<lparr> lat = 0, lon = 0, alt = 0, speed = 0, heading = 0, precision = 3,
                     fix_gps = 0, time = 0, gpsname = [] \<rparr>, example_source)"
  by (simp add: handle_kv_gps_def handle_kv_gps_dict_def example_externals_def
      example_msgpack_unpack_def gps_fix_bytes_def gps_precision_fix_bytes_def Let_def)

lemma handle_kv_gps_dict_fix:
  "handle_kv_gps_dict [''fix'' \<mapsto> MInt 3] gpsinfo = Some (gpsinfo\<lparr> precision := 3 \<rparr>)"
  by (simp add: handle_kv_gps_dict_def)

text \<open>
  In general, when no conversion throws: every field but \<^verbatim>\<open>precision\<close> and \<^verbatim>\<open>fix\<close> holds
  the entry of its name or its default; \<^verbatim>\<open>precision\<close> holds the \<^verbatim>\<open>fix\<close> entry when there
  is one, else the \<^verbatim>\<open>precision\<close> entry or its default; \<^verbatim>\<open>fix\<close> is never assigned.
\<close>

lemma gps_step:
  "(case dict k of None \<Rightarrow> Some g | Some v \<Rightarrow> Option.bind (conv v) (\<lambda>d. Some (upd d g))) = Some g1
   \<Longrightarrow> g1 = (case dict k of None \<Rightarrow> g | Some v \<Rightarrow> upd (the (conv v)) g)"
  by (auto split: option.splits simp add: bind_eq_Some_conv)

lemma handle_kv_gps_dict_eq:
  assumes "handle_kv_gps_dict dict g = Some g'"
  shows "g' = g\<lparr> lat := (case dict ''lat'' of None \<Rightarrow> lat g | Some v \<Rightarrow> the (as_double v)),
                 lon := (case dict ''lon'' of None \<Rightarrow> lon g | Some v \<Rightarrow> the (as_double v)),
                 alt := (case dict ''alt'' of None \<Rightarrow> alt g | Some v \<Rightarrow> the (as_double v)),
                 speed := (case dict ''speed'' of None \<Rightarrow> speed g | Some v \<Rightarrow> the (as_double v)),
                 heading := (case dict ''heading'' of None \<Rightarrow> heading g
                             | Some v \<Rightarrow> the (as_double v)),
                 precision :=
                   (case dict ''fix'' of
                      Some v \<Rightarrow> real_of_int (the (as_int32_t v))
                    | None \<Rightarrow> (case dict ''precision'' of None \<Rightarrow> precision g
                               | Some v \<Rightarrow> the (as_double v))),
                 time := (case dict ''time'' of None \<Rightarrow> time g
                          | Some v \<Rightarrow> time_t_of_uint64_t (the (as_uint64_t v))),
                 gpsname := (case dict ''name'' of None \<Rightarrow> gpsname g | Some v \<Rightarrow> the (as_string v)) \<rparr>"
proof -
  from assms obtain g1 g2 g3 g4 g5 g6 g7 g8 where
    s1: "(case dict ''lat'' of None \<Rightarrow> Some g
          | Some v \<Rightarrow> Option.bind (as_double v) (\<lambda>d. Some (g\<lparr> lat := d \<rparr>))) = Some g1"
    and s2: "(case dict ''lon'' of None \<Rightarrow> Some g1
          | Some v \<Rightarrow> Option.bind (as_double v) (\<lambda>d. Some (g1\<lparr> lon := d \<rparr>))) = Some g2"
    and s3: "(case dict ''alt'' of None \<Rightarrow> Some g2
          | Some v \<Rightarrow> Option.bind (as_double v) (\<lambda>d. Some (g2\<lparr> alt := d \<rparr>))) = Some g3"
    and s4: "(case dict ''speed'' of None \<Rightarrow> Some g3
          | Some v \<Rightarrow> Option.bind (as_double v) (\<lambda>d. Some (g3\<lparr> speed := d \<rparr>))) = Some g4"
    and s5: "(case dict ''heading'' of None \<Rightarrow> Some g4
          | Some v \<Rightarrow> Option.bind (as_double v) (\<lambda>d. Some (g4\<lparr> heading := d \<rparr>))) = Some g5"
    and s6: "(case dict ''precision'' of None \<Rightarrow> Some g5
          | Some v \<Rightarrow> Option.bind (as_double v) (\<lambda>d. Some (g5\<lparr> precision := d \<rparr>))) = Some g6"
    and s7: "(case dict ''fix'' of None \<Rightarrow> Some g6
          | Some v \<Rightarrow> Option.bind (as_int32_t v)
                       (\<lambda>i. Some (g6\<lparr> precision := real_of_int i \<rparr>))) = Some g7"
    and s8: "(case dict ''time'' of None \<Rightarrow> Some g7
          | Some v \<Rightarrow> Option.bind (as_uint64_t v)
                       (\<lambda>n. Some (g7\<lparr> time := time_t_of_uint64_t n \<rparr>))) = Some g8"
    and s9: "(case dict ''name'' of None \<Rightarrow> Some g8
          | Some v \<Rightarrow> Option.bind (as_string v) (\<lambda>n. Some (g8\<lparr> gpsname := n \<rparr>))) = Some g'"
    unfolding handle_kv_gps_dict_def bind_eq_Some_conv by blast
  note e1 = gps_step [where dict = dict and k = "''lat''" and g = g and conv = as_double and upd = "\<lambda>d g. g\<lparr> lat := d \<rparr>", OF s1]
  note e2 = gps_step [where dict = dict and k = "''lon''" and g = g1 and conv = as_double and upd = "\<lambda>d g. g\<lparr> lon := d \<rparr>", OF s2]
  note e3 = gps_step [where dict = dict and k = "''alt''" and g = g2 and conv = as_double and upd = "\<lambda>d g. g\<lparr> alt := d \<rparr>", OF s3]
  note e4 = gps_step [where dict = dict and k = "''speed''" and g = g3 and conv = as_double and upd = "\<lambda>d g. g\<lparr> speed := d \<rparr>", OF s4]
  note e5 = gps_step [where dict = dict and k = "''heading''" and g = g4 and conv = as_double and upd = "\<lambda>d g. g\<lparr> heading := d \<rparr>", OF s5]
  note e6 = gps_step [where dict = dict and k = "''precision''" and g = g5 and conv = as_double and upd = "\<lambda>d g. g\<lparr> precision := d \<rparr>", OF s6]
  note e7 = gps_step [where dict = dict and k = "''fix''" and g = g6 and conv = as_int32_t and upd = "\<lambda>i g. g\<lparr> precision := real_of_int i \<rparr>", OF s7]
  note e8 = gps_step [where dict = dict and k = "''time''" and g = g7 and conv = as_uint64_t and upd = "\<lambda>n g. g\<lparr> time := time_t_of_uint64_t n \<rparr>", OF s8]
  note e9 = gps_step [where dict = dict and k = "''name''" and g = g8 and conv = as_string and upd = "\<lambda>n g. g\<lparr> gpsname := n \<rparr>", OF s9]
  have f1: "g1 = g\<lparr> lat := (case dict ''lat'' of None \<Rightarrow> lat g | Some v \<Rightarrow> the (as_double v)) \<rparr>"
    using e1 by (simp split: option.split)
  have f2: "g2 = g1\<lparr> lon := (case dict ''lon'' of None \<Rightarrow> lon g1 | Some v \<Rightarrow> the (as_double v)) \<rparr>"
    using e2 by (simp split: option.split)
  have f3: "g3 = g2\<lparr> alt := (case dict ''alt'' of None \<Rightarrow> alt g2 | Some v \<Rightarrow> the (as_double v)) \<rparr>"
    using e3 by (simp split: option.split)
  have f4: "g4 = g3\<lparr> speed := (case dict ''speed'' of None \<Rightarrow> speed g3 | Some v \<Rightarrow> the (as_double v)) \<rparr>"
    using e4 by (simp split: option.split)
  have f5: "g5 = g4\<lparr> heading := (case dict ''heading'' of None \<Rightarrow> heading g4
                                   | Some v \<Rightarrow> the (as_double v)) \<rparr>"
    using e5 by (simp split: option.split)
  have f6: "g6 = g5\<lparr> precision := (case dict ''precision'' of None \<Rightarrow> precision g5
                                     | Some v \<Rightarrow> the (as_double v)) \<rparr>"
    using e6 by (simp split: option.split)
  have f7: "g7 = g6\<lparr> precision := (case dict ''fix'' of None \<Rightarrow> precision g6
                                     | Some v \<Rightarrow> real_of_int (the (as_int32_t v))) \<rparr>"
    using e7 by (simp split: option.split)
  have f8: "g8 = g7\<lparr> time := (case dict ''time'' of None \<Rightarrow> time g7
                              | Some v \<Rightarrow> time_t_of_uint64_t (the (as_uint64_t v))) \<rparr>"
    using e8 by (simp split: option.split)
  have f9: "g' = g8\<lparr> gpsname := (case dict ''name'' of None \<Rightarrow> gpsname g8
                                  | Some v \<Rightarrow> the (as_string v)) \<rparr>"
    using e9 by (simp split: option.split)
  show ?thesis
    unfolding f9 f8 f7 f6 f5 f4 f3 f2 f1
    by (cases "dict ''fix''") (simp_all cong: option.case_cong)
qed

end
